theory Spec2Isabelle
  imports Main
begin

unbundle bit_operations_syntax

section \<open>JavaScript values used by the sources\<close>

text \<open>
  A JavaScript \<open>number\<close> as the version code meets it: an integer, or \<open>NaN\<close> (what
  \<open>parseInt\<close> returns when it finds no digit). Strings are \<open>char list\<close>s, so the model
  covers strings of 8-bit characters.
\<close>

datatype number = NaN | Num int

datatype error = RangeError string | TypeError

text \<open>
  The compatibility data is decoded JSON typed \<open>any\<close>; optional properties of a support
  statement are \<open>json option\<close>, \<open>None\<close> for an absent property (\<open>undefined\<close>).
  JSON numbers are restricted to integers of magnitude below \<open>10^21\<close>, which
  \<open>String\<close> prints as their decimal digits.
\<close>

datatype json =
    JNull
  | JBool bool
  | JNum int
  | JStr string
  | JArr "json list"
  | JObj "(string \<times> json) list"

text \<open>Truthiness of a property value, as \<open>if (x)\<close> and \<open>x ? a : b\<close> test it.\<close>

fun truthy :: "json option \<Rightarrow> bool" where
  "truthy None = False"
| "truthy (Some JNull) = False"
| "truthy (Some (JBool b)) = b"
| "truthy (Some (JNum n)) = (n \<noteq> 0)"
| "truthy (Some (JStr s)) = (s \<noteq> [])"
| "truthy (Some (JArr xs)) = True"
| "truthy (Some (JObj kvs)) = True"

subsection \<open>Number to string, string to number\<close>

definition digitChar :: "nat \<Rightarrow> char" where
  "digitChar d = char_of (48 + d)"

function digitsOf :: "nat \<Rightarrow> string" where
  "digitsOf n = (if n < 10 then [digitChar n] else digitsOf (n div 10) @ [digitChar (n mod 10)])"
  by pat_completeness auto
termination
  by (relation "measure (\<lambda>n. n)") auto

declare digitsOf.simps [simp del]

text \<open>
  \<open>Number.prototype.toString\<close> on an integer: its decimal digits, as JavaScript prints
  an integer of magnitude below \<open>10^21\<close>.
\<close>

definition Number_toString :: "int \<Rightarrow> string" where
  "Number_toString n = (if n < 0 then CHR ''-'' # digitsOf (nat (- n)) else digitsOf (nat n))"

definition isDigit :: "char \<Rightarrow> bool" where
  "isDigit c = (48 \<le> (of_char c :: nat) \<and> (of_char c :: nat) \<le> 57)"

definition digitVal :: "char \<Rightarrow> int" where
  "digitVal c = int (of_char c) - 48"

text \<open>The white space \<open>parseInt\<close> skips, among 8-bit characters: TAB, LF, VT, FF, CR, SP, NBSP.\<close>

definition isStrWhiteSpaceChar :: "char \<Rightarrow> bool" where
  "isStrWhiteSpaceChar c = ((of_char c :: nat) \<in> {9, 10, 11, 12, 13, 32, 160})"

definition digitsValue :: "string \<Rightarrow> int" where
  "digitsValue ds = foldl (\<lambda>acc c. acc * 10 + digitVal c) 0 ds"

text \<open>
  \<open>parseInt(str, 10)\<close>: skip leading white space, read an optional sign, then the longest
  run of decimal digits; what follows is ignored, and no digit at all gives \<open>NaN\<close>.
\<close>

definition parseInt :: "string \<Rightarrow> number" where
  "parseInt str =
     (let s1 = dropWhile isStrWhiteSpaceChar str;
          neg = (s1 \<noteq> [] \<and> hd s1 = CHR ''-'');
          s2 = (if s1 \<noteq> [] \<and> (hd s1 = CHR ''-'' \<or> hd s1 = CHR ''+'') then tl s1 else s1);
          ds = takeWhile isDigit s2
      in if ds = [] then NaN
         else Num (if neg then - digitsValue ds else digitsValue ds))"

subsection \<open>String operations\<close>

text \<open>\<open>str.indexOf(c)\<close> for a one-character search string: the first position, or -1.\<close>

fun indexOf :: "string \<Rightarrow> char \<Rightarrow> int" where
  "indexOf [] c = - 1"
| "indexOf (x # xs) c =
     (if x = c then 0 else (let r = indexOf xs c in if r = - 1 then - 1 else r + 1))"

definition substring :: "string \<Rightarrow> nat \<Rightarrow> nat \<Rightarrow> string" where
  "substring s a b =
     (let a' = min a (length s); b' = min b (length s);
          lo = min a' b'; hi = max a' b'
      in take (hi - lo) (drop lo s))"

definition substringFrom :: "string \<Rightarrow> nat \<Rightarrow> string" where
  "substringFrom s a = drop a s"

definition startsWith :: "string \<Rightarrow> string \<Rightarrow> bool" where
  "startsWith s p = (take (length p) s = p)"

section \<open>Version.ts\<close>

definition VERSION_MAX :: int where
  "VERSION_MAX = 999999999"

definition MAX_MAJOR :: int where
  "MAX_MAJOR = VERSION_MAX"

definition MAX_MINOR :: int where
  "MAX_MINOR = VERSION_MAX"

record Version =
  major :: int
  minor :: int

definition minVal :: Version where
  "minVal = \<lparr>major = 0, minor = 0\<rparr>"

definition maxVal :: Version where
  "maxVal = \<lparr>major = VERSION_MAX, minor = VERSION_MAX\<rparr>"

definition infinite :: Version where
  "infinite = \<lparr>major = VERSION_MAX + 1, minor = 0\<rparr>"

text \<open>
  \<open>Version.create\<close>: every comparison with \<open>NaN\<close> is false, so \<open>NaN\<close> is refused; on an
  integer in range \<open>|= 0\<close> changes nothing.
\<close>

fun Version_create :: "number \<Rightarrow> number \<Rightarrow> error + Version" where
  "Version_create (Num a) (Num b) =
     (if a \<ge> 0 \<and> a \<le> MAX_MAJOR \<and> b \<ge> 0 \<and> b \<le> MAX_MINOR
      then Inr \<lparr>major = a, minor = b\<rparr>
      else Inl (RangeError ''Invalid version.''))"
| "Version_create _ _ = Inl (RangeError ''Invalid version.'')"

definition Version_compare :: "Version \<Rightarrow> Version \<Rightarrow> int" where
  "Version_compare v1 v2 =
     (if major v1 \<noteq> major v2 then (if major v1 < major v2 then - 1 else 1)
      else if minor v1 \<noteq> minor v2 then (if minor v1 < minor v2 then - 1 else 1)
      else 0)"

definition Version_min :: "Version \<Rightarrow> Version \<Rightarrow> Version" where
  "Version_min v1 v2 = (if Version_compare v1 v2 < 0 then v1 else v2)"

definition Version_max :: "Version \<Rightarrow> Version \<Rightarrow> Version" where
  "Version_max v1 v2 = (if Version_compare v1 v2 > 0 then v1 else v2)"

definition Version_toString :: "Version \<Rightarrow> string" where
  "Version_toString v = Number_toString (major v) @ ''.'' @ Number_toString (minor v)"

text \<open>The private \<open>_fromString(str, defaultMinorMax)\<close>.\<close>

definition Version_fromString' :: "string \<Rightarrow> bool \<Rightarrow> error + Version" where
  "Version_fromString' str defaultMinorMax =
     (let p = indexOf str CHR ''.''
      in if p = - 1
         then Version_create (parseInt str) (Num (if defaultMinorMax then MAX_MINOR else 0))
         else Version_create (parseInt (substring str 0 (nat p)))
                             (parseInt (substringFrom str (nat p + 1))))"

definition Version_fromString :: "string \<Rightarrow> error + Version" where
  "Version_fromString str = Version_fromString' str False"

text \<open>Sequencing of calls that may throw: the first error ends the computation.\<close>

definition bind_result :: "error + 'a \<Rightarrow> ('a \<Rightarrow> error + 'b) \<Rightarrow> error + 'b" where
  "bind_result r f = (case r of Inl e \<Rightarrow> Inl e | Inr x \<Rightarrow> f x)"

definition checkRange :: "string \<Rightarrow> Version \<Rightarrow> Version \<Rightarrow> error + (Version \<times> Version)" where
  "checkRange str mn mx =
     (if Version_compare mn mx > 0
      then Inl (RangeError (''Invalid version range string: '' @ str))
      else Inr (mn, mx))"

definition Version_rangeFromString :: "string \<Rightarrow> error + (Version \<times> Version)" where
  "Version_rangeFromString str =
     (if str = ''*'' then Inr (minVal, maxVal)
      else
        let dashPos = indexOf str CHR ''-''
        in if dashPos \<noteq> - 1 then
             bind_result (Version_fromString' (substring str 0 (nat dashPos)) False) (\<lambda>mn.
             bind_result (Version_fromString' (substringFrom str (nat dashPos + 1)) True) (\<lambda>mx.
             checkRange str mn mx))
           else if startsWith str ''<='' then
             bind_result (Version_fromString' (substringFrom str 2) True) (\<lambda>mx.
             checkRange str minVal mx)
           else if startsWith str ''>='' then
             bind_result (Version_fromString' (substringFrom str 2) False) (\<lambda>mn.
             checkRange str mn maxVal)
           else if indexOf str CHR ''.'' = - 1 then
             bind_result (Version_create (parseInt str) (Num 0)) (\<lambda>mn.
             bind_result (Version_create (Num (major mn)) (Num MAX_MINOR)) (\<lambda>mx.
             checkRange str mn mx))
           else
             bind_result (Version_fromString str) (\<lambda>v.
             checkRange str v v))"

definition versionMajorRangeToString :: "int \<Rightarrow> int \<Rightarrow> string" where
  "versionMajorRangeToString startMajor endMajor =
     (if startMajor = endMajor then Number_toString startMajor
      else if startMajor = 0 then
        (if endMajor = MAX_MAJOR then ''*'' else ''<='' @ Number_toString endMajor)
      else if endMajor = MAX_MAJOR then ''>='' @ Number_toString startMajor
      else Number_toString startMajor @ ''-'' @ Number_toString endMajor)"

definition Version_rangeToString :: "Version \<Rightarrow> Version \<Rightarrow> string" where
  "Version_rangeToString start end' =
     (if Version_compare start end' = 0 then Version_toString start
      else if minor start = 0 \<and> minor end' = MAX_MINOR
        then versionMajorRangeToString (major start) (major end')
      else if Version_compare start minVal \<le> 0 then ''<='' @ Version_toString end'
      else if Version_compare end' maxVal \<ge> 0 then ''>='' @ Version_toString start
      else Version_toString start @ ''-'' @ Version_toString end')"

text \<open>The order that \<open>Version.compare\<close> decides: by major version, then by minor version.\<close>

definition vless :: "Version \<Rightarrow> Version \<Rightarrow> bool" where
  "vless a b = (major a < major b \<or> (major a = major b \<and> minor a < minor b))"

definition vleq :: "Version \<Rightarrow> Version \<Rightarrow> bool" where
  "vleq a b = (vless a b \<or> (major a = major b \<and> minor a = minor b))"

section \<open>ClientInfo.ts, Issue.ts\<close>

record ClientInfo =
  name :: string
  displayName :: string
  minVersion :: Version
  maxVersion :: Version
  description :: string

definition createDescription :: "string \<Rightarrow> Version \<Rightarrow> Version \<Rightarrow> string" where
  "createDescription dn mn mx =
     (if Version_compare mn minVal = 0 \<and> Version_compare mx maxVal = 0 then dn
      else dn @ '' '' @ Version_rangeToString mn mx)"

definition ClientInfo_new :: "string \<Rightarrow> string \<Rightarrow> Version \<Rightarrow> Version \<Rightarrow> ClientInfo" where
  "ClientInfo_new n dn mn mx =
     \<lparr>name = n, displayName = dn, minVersion = mn, maxVersion = mx,
      description = createDescription dn mn mx\<rparr>"

datatype IssueKind =
  NOT_SUPPORTED | NEEDS_PREFIX | NEEDS_ALT_NAME | NEEDS_FLAG | IS_PARTIAL_IMPL | NOTE

record Issue =
  featureName :: string
  clientInfo :: ClientInfo
  kind :: IssueKind
  altOrPrefix :: "string option"
  "note" :: "string option"
  url :: "string option"
  startVersion :: Version
  endVersion :: Version

definition Issue_new ::
  "string \<Rightarrow> ClientInfo \<Rightarrow> IssueKind \<Rightarrow> string option \<Rightarrow> string option \<Rightarrow> string option
     \<Rightarrow> Version \<Rightarrow> Version \<Rightarrow> Issue" where
  "Issue_new fn ci k ap nt u sv ev =
     \<lparr>featureName = fn, clientInfo = ci, kind = k, altOrPrefix = ap, note = nt, url = u,
      startVersion = sv, endVersion = ev\<rparr>"

section \<open>CompatData.ts\<close>

text \<open>
  Modelled from the spec: the enum \<open>ClientCompatCheckerFlags\<close> is declared in
  ClientCompatCheckerFlags.ts, which is not among the sources; the spec calls
  \<open>IGNORE_NOTES\<close> and \<open>IGNORE_PARTIAL_IMPL\<close> the combinable members of a bit set, so they
  are two distinct bits. No theorem below depends on which bits they are.
\<close>

definition IGNORE_NOTES :: int where
  "IGNORE_NOTES = 1"

definition IGNORE_PARTIAL_IMPL :: int where
  "IGNORE_PARTIAL_IMPL = 2"

text \<open>
  A support statement after preprocessing: \<open>version_added\<close> and \<open>version_removed\<close> are
  \<open>Version\<close> objects; the other properties are read as they come from the data.
\<close>

record SupportStatement =
  version_added :: Version
  version_removed :: Version
  prefix :: "json option"
  alternative_name :: "json option"
  flags :: "json option"
  partial_implementation :: "json option"
  "notes" :: "json option"

text \<open>The value of \<open>support[clientInfo.name]\<close>: one statement or an array of statements.\<close>

datatype SupportBlock = Single SupportStatement | Array "SupportStatement list"

text \<open>
  The \<open>support\<close> object is a plain object whose own properties are the entries of the
  data, one per client. Reading \<open>support[name]\<close> gives the own property when there is
  one, and otherwise what the object inherits from \<open>Object.prototype\<close>: a function for
  each of its method names, the prototype object itself for \<open>__proto__\<close>, and
  \<open>undefined\<close> for any other name.
\<close>

record CompatStatement =
  support :: "string \<rightharpoonup> SupportBlock"
  mdn_url :: "json option"

definition objectPrototypeNames :: "string list" where
  "objectPrototypeNames =
     [''constructor'', ''__defineGetter__'', ''__defineSetter__'', ''hasOwnProperty'',
      ''__lookupGetter__'', ''__lookupSetter__'', ''isPrototypeOf'', ''propertyIsEnumerable'',
      ''toString'', ''valueOf'', ''__proto__'', ''toLocaleString'']"

datatype 'a PropertyValue = Undefined | Inherited | Own 'a

definition getProperty :: "(string \<rightharpoonup> 'a) \<Rightarrow> string \<Rightarrow> 'a PropertyValue" where
  "getProperty obj key =
     (case obj key of
        Some v \<Rightarrow> Own v
      | None \<Rightarrow> if key \<in> set objectPrototypeNames then Inherited else Undefined)"

fun joinComma :: "string list \<Rightarrow> string" where
  "joinComma [] = []"
| "joinComma [x] = x"
| "joinComma (x # y # ys) = x @ '','' @ joinComma (y # ys)"

text \<open>\<open>String(x)\<close> on a JSON value.\<close>

fun js_String :: "json \<Rightarrow> string" where
  "js_String JNull = ''null''"
| "js_String (JBool b) = (if b then ''true'' else ''false'')"
| "js_String (JNum n) = Number_toString n"
| "js_String (JStr s) = s"
| "js_String (JArr xs) = joinComma (map (\<lambda>x. if x = JNull then [] else js_String x) xs)"
| "js_String (JObj kvs) = ''[object Object]''"

text \<open>
  \<open>str.replace(/<[^>]+>/g, "")\<close>: a match starts at a \<open><\<close> followed by at least one
  character other than \<open>>\<close> and ends at the next \<open>>\<close>.
\<close>

function stripTags :: "string \<Rightarrow> string" where
  "stripTags [] = []"
| "stripTags (c # cs) =
     (let run = takeWhile (\<lambda>x. x \<noteq> CHR ''>'') cs;
          rest = dropWhile (\<lambda>x. x \<noteq> CHR ''>'') cs
      in if c = CHR ''<'' \<and> run \<noteq> [] \<and> rest \<noteq> [] then stripTags (tl rest)
         else c # stripTags cs)"
  by pat_completeness auto
termination
proof (relation "measure length")
  show "wf (measure length)" by simp
next
  fix c :: char and cs run rest :: string
  assume "rest = dropWhile (\<lambda>x. x \<noteq> CHR ''>'') cs"
  then have "length rest \<le> length cs"
    by (simp add: length_dropWhile_le)
  then have "length (tl rest) \<le> length cs"
    by simp
  then show "(tl rest, c # cs) \<in> measure length" by simp
next
  fix c :: char and cs :: string
  show "(cs, c # cs) \<in> measure length" by simp
qed

text \<open>\<open>str.replace(/&(?:lt|gt|amp);/g, ...)\<close>.\<close>

fun replaceEntities :: "string \<Rightarrow> string" where
  "replaceEntities [] = []"
| "replaceEntities (c # cs) =
     (if c = CHR ''&'' \<and> take 3 cs = ''lt;'' then CHR ''<'' # replaceEntities (drop 3 cs)
      else if c = CHR ''&'' \<and> take 3 cs = ''gt;'' then CHR ''>'' # replaceEntities (drop 3 cs)
      else if c = CHR ''&'' \<and> take 4 cs = ''amp;'' then CHR ''&'' # replaceEntities (drop 4 cs)
      else c # replaceEntities cs)"

definition stripHTMLFromNotes :: "string \<Rightarrow> string" where
  "stripHTMLFromNotes str = replaceEntities (stripTags str)"

definition featureNameOf :: "string \<Rightarrow> string option \<Rightarrow> string" where
  "featureNameOf typeName propName =
     (case propName of Some p \<Rightarrow> typeName @ ''.'' @ p | None \<Rightarrow> typeName)"

definition makeNotSupportedIssue :: "string \<Rightarrow> string option \<Rightarrow> ClientInfo \<Rightarrow> Issue" where
  "makeNotSupportedIssue nm propName ci =
     Issue_new (featureNameOf nm propName) ci NOT_SUPPORTED None None None minVal infinite"

definition shouldDiscardIssueBasedOnFlags :: "Issue \<Rightarrow> int \<Rightarrow> bool" where
  "shouldDiscardIssueBasedOnFlags issue cflags =
     (if (cflags AND IGNORE_NOTES) \<noteq> 0 \<and> kind issue = NOTE then True
      else if (cflags AND IGNORE_PARTIAL_IMPL) \<noteq> 0 \<and> kind issue = IS_PARTIAL_IMPL then True
      else False)"

definition getIssueKindAndPrefixFromSupportStatement ::
  "SupportStatement \<Rightarrow> IssueKind option \<times> string option" where
  "getIssueKindAndPrefixFromSupportStatement ss =
     (if truthy (prefix ss) then (Some NEEDS_PREFIX, Some (js_String (the (prefix ss))))
      else if truthy (alternative_name ss)
        then (Some NEEDS_ALT_NAME, Some (js_String (the (alternative_name ss))))
      else if truthy (flags ss) then (Some NEEDS_FLAG, None)
      else if partial_implementation ss = Some (JBool True) then (Some IS_PARTIAL_IMPL, None)
      else if truthy (notes ss) then (Some NOTE, None)
      else (None, None))"

definition makeIssueFromSupportStatement ::
  "string \<Rightarrow> string option \<Rightarrow> string option \<Rightarrow> ClientInfo \<Rightarrow> int \<Rightarrow> SupportStatement
     \<Rightarrow> Issue option" where
  "makeIssueFromSupportStatement typeName propName u ci cflags ss =
     (let versionAdded = version_added ss; versionRemoved = version_removed ss
      in if Version_compare (maxVersion ci) versionAdded < 0
            \<or> Version_compare (minVersion ci) versionRemoved \<ge> 0
         then None
         else
           let nts = (if truthy (notes ss)
                      then Some (stripHTMLFromNotes (js_String (the (notes ss)))) else None);
               (issueKind, aop) = getIssueKindAndPrefixFromSupportStatement ss
           in case issueKind of
                None \<Rightarrow> None
              | Some k \<Rightarrow>
                  let issue = Issue_new (featureNameOf typeName propName) ci k aop nts u
                                versionAdded versionRemoved
                  in if shouldDiscardIssueBasedOnFlags issue cflags then None else Some issue)"

definition hasCaveat :: "SupportStatement \<Rightarrow> bool" where
  "hasCaveat x = (truthy (prefix x) \<or> truthy (alternative_name x) \<or> truthy (flags x)
                   \<or> truthy (partial_implementation x))"

definition checkIfSupportedVersion :: "ClientInfo \<Rightarrow> SupportStatement \<Rightarrow> bool \<Rightarrow> bool" where
  "checkIfSupportedVersion ci sprt withNoIssues =
     (if Version_compare (minVersion ci) (version_added sprt) < 0
         \<or> Version_compare (maxVersion ci) (version_removed sprt) \<ge> 0
      then False
      else if \<not> withNoIssues then True
      else \<not> hasCaveat sprt)"

text \<open>
  The loop of \<open>_checkVersionRangeIntersection\<close>, from index \<open>i\<close> with the running
  \<open>lastRemoved\<close>.
\<close>

function rangeIntersectionLoop ::
  "Version \<Rightarrow> Version \<Rightarrow> SupportStatement list \<Rightarrow> nat \<Rightarrow> Version \<Rightarrow> bool" where
  "rangeIntersectionLoop vMin vMax arr i lastRemoved =
     (if i < length arr then
        (let nextAdded = version_added (arr ! i)
         in if Version_compare nextAdded lastRemoved > 0
               \<and> Version_compare vMin nextAdded < 0
               \<and> Version_compare vMax lastRemoved \<ge> 0
            then False
            else rangeIntersectionLoop vMin vMax arr (i + 1)
                   (Version_max lastRemoved (version_removed (arr ! i))))
      else Version_compare vMax lastRemoved < 0)"
  by pat_completeness auto
termination
  by (relation "measure (\<lambda>(vMin, vMax, arr, i, lastRemoved). length arr - i)") auto

declare rangeIntersectionLoop.simps [simp del]

text \<open>Reading \<open>arr[0].version_added\<close> of an empty array throws a \<open>TypeError\<close>.\<close>

definition checkVersionRangeIntersection ::
  "ClientInfo \<Rightarrow> SupportStatement list \<Rightarrow> error + bool" where
  "checkVersionRangeIntersection ci sortedSupportStatements =
     (let arr = sortedSupportStatements; vMin = minVersion ci; vMax = maxVersion ci
      in if arr = [] then Inl TypeError
         else if Version_compare vMin (version_added (arr ! 0)) < 0 then Inr False
         else Inr (rangeIntersectionLoop vMin vMax arr 1 (version_removed (arr ! 0))))"

definition checkIfSupportedVersionArray ::
  "ClientInfo \<Rightarrow> SupportStatement list \<Rightarrow> bool \<Rightarrow> error + bool" where
  "checkIfSupportedVersionArray ci supportStatements withNoIssues =
     (let stmts = (if withNoIssues then filter (\<lambda>x. \<not> hasCaveat x) supportStatements
                   else supportStatements)
      in if length stmts = 0 then Inr False
         else if length stmts = 1 then Inr (checkIfSupportedVersion ci (stmts ! 0) False)
         else checkVersionRangeIntersection ci stmts)"

definition getIssuesFromSingleSupportStatement ::
  "ClientInfo \<Rightarrow> string \<Rightarrow> string option \<Rightarrow> string option \<Rightarrow> SupportStatement \<Rightarrow> int
     \<Rightarrow> Issue list \<Rightarrow> Issue list" where
  "getIssuesFromSingleSupportStatement ci typeName propName u ss cflags issues =
     (let issue = (if checkIfSupportedVersion ci ss False
                   then makeIssueFromSupportStatement typeName propName u ci cflags ss
                   else Some (makeNotSupportedIssue typeName propName ci))
      in case issue of None \<Rightarrow> issues | Some i \<Rightarrow> issues @ [i])"

text \<open>The \<open>for\<close> loop of \<open>_getIssuesFromArraySupportStatement\<close>, one statement per step.\<close>

fun arrayIssuesLoop ::
  "ClientInfo \<Rightarrow> string \<Rightarrow> string option \<Rightarrow> string option \<Rightarrow> int \<Rightarrow> bool
     \<Rightarrow> SupportStatement list \<Rightarrow> Issue list \<Rightarrow> Issue list" where
  "arrayIssuesLoop ci typeName propName u cflags notesOnly [] issues = issues"
| "arrayIssuesLoop ci typeName propName u cflags notesOnly (s # ss) issues =
     (case makeIssueFromSupportStatement typeName propName u ci cflags s of
        None \<Rightarrow> arrayIssuesLoop ci typeName propName u cflags notesOnly ss issues
      | Some issue \<Rightarrow>
          if notesOnly \<and> kind issue \<noteq> NOTE
          then arrayIssuesLoop ci typeName propName u cflags notesOnly ss issues
          else arrayIssuesLoop ci typeName propName u cflags notesOnly ss (issues @ [issue]))"

definition getIssuesFromArraySupportStatement ::
  "ClientInfo \<Rightarrow> string \<Rightarrow> string option \<Rightarrow> string option \<Rightarrow> SupportStatement list \<Rightarrow> int
     \<Rightarrow> Issue list \<Rightarrow> error + Issue list" where
  "getIssuesFromArraySupportStatement ci typeName propName u supportStatements cflags issues =
     bind_result (checkIfSupportedVersionArray ci supportStatements False) (\<lambda>supported.
       if \<not> supported then Inr (issues @ [makeNotSupportedIssue typeName propName ci])
       else
         bind_result (checkIfSupportedVersionArray ci supportStatements True) (\<lambda>notesOnly.
           Inr (arrayIssuesLoop ci typeName propName u cflags notesOnly
                  supportStatements issues)))"

text \<open>
  \<open>_getIssuesFromCompatStatement\<close>. An inherited value of \<open>support[clientInfo.name]\<close> is
  truthy and is not an array, so it is taken for a single support statement; it has no
  \<open>version_added\<close>, and \<open>Version.compare\<close>, called by \<open>_checkIfSupportedVersion\<close>, throws
  a \<open>TypeError\<close> when it reads \<open>major\<close> of \<open>undefined\<close>.
\<close>

definition getIssuesFromCompatStatement ::
  "ClientInfo \<Rightarrow> string \<Rightarrow> string option \<Rightarrow> CompatStatement option \<Rightarrow> int \<Rightarrow> Issue list
     \<Rightarrow> error + Issue list" where
  "getIssuesFromCompatStatement ci typeName propName compatStatement cflags issues =
     (case compatStatement of
        None \<Rightarrow> Inr issues
      | Some cs \<Rightarrow>
          (case getProperty (support cs) (name ci) of
             Undefined \<Rightarrow> Inr (issues @ [makeNotSupportedIssue typeName propName ci])
           | Inherited \<Rightarrow> Inl TypeError
           | Own sprt \<Rightarrow>
               let u = (if truthy (mdn_url cs) then Some (js_String (the (mdn_url cs)))
                        else None)
               in case sprt of
                    Array stmts \<Rightarrow>
                      getIssuesFromArraySupportStatement ci typeName propName u stmts cflags issues
                  | Single ss \<Rightarrow>
                      Inr (getIssuesFromSingleSupportStatement ci typeName propName u ss
                             cflags issues)))"

section \<open>ClientCompatIssueList.ts, ClientCompatChecker.ts\<close>

text \<open>A map value of type \<open>Issue | Issue[]\<close>.\<close>

datatype IssueEntry = OneIssue Issue | ManyIssues "Issue list"

record ClientCompatIssueList =
  m_global :: "string \<rightharpoonup> IssueEntry"
  m_properties :: "string \<rightharpoonup> (string \<rightharpoonup> IssueEntry)"
  m_events :: "string \<rightharpoonup> (string \<rightharpoonup> IssueEntry)"

definition ClientCompatIssueList_new :: ClientCompatIssueList where
  "ClientCompatIssueList_new =
     \<lparr>m_global = Map.empty, m_properties = Map.empty, m_events = Map.empty\<rparr>"

definition entryOf :: "Issue list \<Rightarrow> IssueEntry" where
  "entryOf issues = (if length issues = 1 then OneIssue (issues ! 0) else ManyIssues issues)"

definition setIssuesForGlobal ::
  "ClientCompatIssueList \<Rightarrow> string \<Rightarrow> Issue list \<Rightarrow> ClientCompatIssueList" where
  "setIssuesForGlobal this nm issues =
     (if length issues = 0 then this
      else this\<lparr>m_global := (m_global this)(nm \<mapsto> entryOf issues)\<rparr>)"

definition setIssuesForPropertyOrEvent ::
  "ClientCompatIssueList \<Rightarrow> string \<Rightarrow> string \<Rightarrow> bool \<Rightarrow> Issue list \<Rightarrow> ClientCompatIssueList" where
  "setIssuesForPropertyOrEvent this typeName propName isEvent issues =
     (if length issues = 0 then this
      else
        let dict = (if isEvent then m_events this else m_properties this);
            typeDict = (case dict typeName of None \<Rightarrow> Map.empty | Some d \<Rightarrow> d);
            dict' = dict(typeName \<mapsto> typeDict(propName \<mapsto> entryOf issues))
        in if isEvent then this\<lparr>m_events := dict'\<rparr> else this\<lparr>m_properties := dict'\<rparr>)"

text \<open>The getters append to the caller's array; the model returns the array after the call.\<close>

definition appendEntry :: "Issue list \<Rightarrow> IssueEntry \<Rightarrow> Issue list" where
  "appendEntry issues issuesFound =
     (case issuesFound of ManyIssues found \<Rightarrow> issues @ found | OneIssue i \<Rightarrow> issues @ [i])"

definition getIssuesForGlobal :: "ClientCompatIssueList \<Rightarrow> string \<Rightarrow> Issue list \<Rightarrow> Issue list" where
  "getIssuesForGlobal this nm issues =
     (case m_global this nm of
        None \<Rightarrow> issues
      | Some issuesFound \<Rightarrow> appendEntry issues issuesFound)"

definition getIssuesForPropertyOrEvent ::
  "ClientCompatIssueList \<Rightarrow> string \<Rightarrow> string \<Rightarrow> bool \<Rightarrow> Issue list \<Rightarrow> Issue list" where
  "getIssuesForPropertyOrEvent this typeName propName isEvent issues =
     (let dict = (if isEvent then m_events this else m_properties this)
      in case dict typeName of
           None \<Rightarrow> issues
         | Some typeDict \<Rightarrow>
             (case typeDict propName of
                None \<Rightarrow> issues
              | Some issuesFound \<Rightarrow> appendEntry issues issuesFound))"

text \<open>
  \<open>ClientCompatChecker\<close>: the loops over \<open>m_clientIssueLists\<close>, then the comparison of
  the array's length with its old length. The result is the returned flag and the array.
\<close>

fun checkGlobalLoop :: "ClientCompatIssueList list \<Rightarrow> string \<Rightarrow> Issue list \<Rightarrow> Issue list" where
  "checkGlobalLoop [] nm issues = issues"
| "checkGlobalLoop (l # ls) nm issues = checkGlobalLoop ls nm (getIssuesForGlobal l nm issues)"

definition checkGlobal ::
  "ClientCompatIssueList list \<Rightarrow> string \<Rightarrow> Issue list \<Rightarrow> bool \<times> Issue list" where
  "checkGlobal m_clientIssueLists nm issues =
     (let oldIssuesLength = length issues;
          issues' = checkGlobalLoop m_clientIssueLists nm issues
      in (length issues' \<noteq> oldIssuesLength, issues'))"

fun checkPropertyOrEventLoop ::
  "ClientCompatIssueList list \<Rightarrow> string \<Rightarrow> string \<Rightarrow> bool \<Rightarrow> Issue list \<Rightarrow> Issue list" where
  "checkPropertyOrEventLoop [] typeName propName isEvent issues = issues"
| "checkPropertyOrEventLoop (l # ls) typeName propName isEvent issues =
     checkPropertyOrEventLoop ls typeName propName isEvent
       (getIssuesForPropertyOrEvent l typeName propName isEvent issues)"

definition checkPropertyOrEvent ::
  "ClientCompatIssueList list \<Rightarrow> string \<Rightarrow> string \<Rightarrow> bool \<Rightarrow> Issue list
     \<Rightarrow> bool \<times> Issue list" where
  "checkPropertyOrEvent m_clientIssueLists typeName propName isEvent issues =
     (let oldIssuesLength = length issues;
          issues' = checkPropertyOrEventLoop m_clientIssueLists typeName propName isEvent issues
      in (length issues' \<noteq> oldIssuesLength, issues'))"

section \<open>GuardExprChecker.ts\<close>

text \<open>
  The expression nodes the checker tells apart; every other kind of node is an
  \<open>OtherExpression\<close>. A node carries what the checker reads from it: the operator kind,
  the operands, \<open>text\<close> of a string literal, \<open>escapedText\<close> of an identifier, \<open>name.text\<close>
  of a property access.
\<close>

datatype BinaryOperator =
    AmpersandAmpersandToken
  | BarBarToken
  | EqualsEqualsToken
  | EqualsEqualsEqualsToken
  | ExclamationEqualsToken
  | ExclamationEqualsEqualsToken
  | InKeyword
  | OtherBinaryOperator string

datatype PrefixUnaryOperator = ExclamationToken | OtherPrefixUnaryOperator string

datatype Expression =
    ParenthesizedExpression Expression
  | PrefixUnaryExpression PrefixUnaryOperator Expression
  | BinaryExpression Expression BinaryOperator Expression
  | TypeOfExpression Expression
  | PropertyAccessExpression Expression string
  | StringLiteral string
  | Identifier string
  | NullKeyword
  | UndefinedKeyword
  | OtherExpression string

text \<open>
  What the checker uses of the compiler: types and declarations are identified by
  numbers, a symbol has a name and maybe a value declaration, and the type checker is the
  four queries the code calls.
\<close>

type_synonym Type = nat

type_synonym Declaration = nat

record Symbol =
  symbolName :: string
  valueDeclaration :: "Declaration option"

record TypeChecker =
  getTypeAtLocation :: "Expression \<Rightarrow> Type"
  getApparentType :: "Type \<Rightarrow> Type"
  getPropertyOfType :: "Type \<Rightarrow> string \<Rightarrow> Symbol option"
  getSymbolAtLocation :: "Expression \<Rightarrow> Symbol option"

datatype GuardExpression =
  GuardExpression (operand: Expression) (guardedSymbol: "Symbol option") (isNegated: bool)

datatype GuardExprChain =
  GuardExprChain (expressions: "GuardExpression list") (operator: BinaryOperator)
    (chainIsNegated: bool)

datatype GuardResult = IsGuardExpression GuardExpression | IsGuardExprChain GuardExprChain

fun getSymbolResolveTarget :: "GuardExpression \<Rightarrow> Expression option" where
  "getSymbolResolveTarget (GuardExpression opnd None neg) = None"
| "getSymbolResolveTarget (GuardExpression (PropertyAccessExpression obj nm) (Some smb) neg)
     = Some obj"
| "getSymbolResolveTarget (GuardExpression (BinaryExpression l InKeyword r) (Some smb) neg)
     = Some r"
| "getSymbolResolveTarget (GuardExpression opnd (Some smb) neg) = None"

fun unwrapParentheses :: "Expression \<Rightarrow> Expression" where
  "unwrapParentheses (ParenthesizedExpression e) = unwrapParentheses e"
| "unwrapParentheses e = e"

text \<open>The loop of \<open>_unwrapNegations\<close>, with the running \<open>isNegative\<close>.\<close>

function unwrapNegationsLoop :: "Expression \<Rightarrow> bool \<Rightarrow> Expression \<times> bool" where
  "unwrapNegationsLoop expr isNegative =
     (case unwrapParentheses expr of
        PrefixUnaryExpression ExclamationToken opnd \<Rightarrow> unwrapNegationsLoop opnd (\<not> isNegative)
      | e \<Rightarrow> (e, isNegative))"
  by pat_completeness auto
termination
proof (relation "measure (\<lambda>(expr, isNegative). size expr)")
  show "wf (measure (\<lambda>(expr, isNegative). size expr))" by simp
next
  fix expr :: Expression and isNegative :: bool and x1 :: PrefixUnaryOperator and opnd :: Expression
  assume u: "unwrapParentheses expr = PrefixUnaryExpression x1 opnd"
  have "size (unwrapParentheses e) \<le> size e" for e
    by (induction e rule: unwrapParentheses.induct) simp_all
  from this [of expr] u have "size opnd < size expr" by simp
  then show "((opnd, \<not> isNegative), (expr, isNegative)) \<in> measure (\<lambda>(expr, isNegative). size expr)"
    by simp
qed

declare unwrapNegationsLoop.simps [simp del]

definition unwrapNegations :: "Expression \<Rightarrow> Expression \<times> bool" where
  "unwrapNegations expr = unwrapNegationsLoop expr False"

definition isPositiveEqualityOperator :: "BinaryOperator \<Rightarrow> bool" where
  "isPositiveEqualityOperator op = (op = EqualsEqualsToken \<or> op = EqualsEqualsEqualsToken)"

definition isNegativeEqualityOperator :: "BinaryOperator \<Rightarrow> bool" where
  "isNegativeEqualityOperator op =
     (op = ExclamationEqualsToken \<or> op = ExclamationEqualsEqualsToken)"

definition isStrictEqualityOperator :: "BinaryOperator \<Rightarrow> bool" where
  "isStrictEqualityOperator op =
     (op = EqualsEqualsEqualsToken \<or> op = ExclamationEqualsEqualsToken)"

definition isUndefinedExpression :: "Expression \<Rightarrow> bool" where
  "isUndefinedExpression expr = (expr = UndefinedKeyword \<or> expr = Identifier ''undefined'')"

definition isStringLiteralOrNullOrUndefined :: "Expression \<Rightarrow> bool" where
  "isStringLiteralOrNullOrUndefined expr =
     (case expr of
        StringLiteral txt \<Rightarrow> True
      | NullKeyword \<Rightarrow> True
      | UndefinedKeyword \<Rightarrow> True
      | Identifier nm \<Rightarrow> nm = ''undefined'' \<or> nm = ''null''
      | _ \<Rightarrow> False)"

text \<open>
  The private fields of the checker. \<open>evaluate\<close> assigns all five before it reads any, so
  they are state of one call.
\<close>

record CheckerState =
  m_operand :: Expression
  m_propertyObj :: "Expression option"
  m_propertyName :: "string option"
  m_isTypeof :: bool
  m_isNegative :: bool

definition evaluateTypeofCheckExpression ::
  "CheckerState \<Rightarrow> Expression \<Rightarrow> string \<Rightarrow> bool \<Rightarrow> CheckerState" where
  "evaluateTypeofCheckExpression this opnd type isNotEquals =
     (if type = ''undefined''
      then this\<lparr>m_operand := unwrapParentheses opnd, m_isNegative := \<not> isNotEquals,
                m_isTypeof := True\<rparr>
      else if \<not> isNotEquals
      then this\<lparr>m_operand := unwrapParentheses opnd, m_isNegative := False,
                m_isTypeof := True\<rparr>
      else this)"

definition evaluateEqualityExpression ::
  "CheckerState \<Rightarrow> Expression \<Rightarrow> Expression \<Rightarrow> bool \<Rightarrow> bool \<Rightarrow> CheckerState" where
  "evaluateEqualityExpression this left0 right0 isNotEquals isStrict =
     (let (left, right) = (if isStringLiteralOrNullOrUndefined left0 then (right0, left0)
                           else (left0, right0))
      in if isUndefinedExpression right \<or> (\<not> isStrict \<and> right = NullKeyword)
         then this\<lparr>m_operand := unwrapParentheses left, m_isNegative := \<not> isNotEquals\<rparr>
         else (case (left, right) of
                 (TypeOfExpression e, StringLiteral txt) \<Rightarrow>
                   evaluateTypeofCheckExpression this e txt isNotEquals
               | _ \<Rightarrow> this))"

definition evaluateBinaryExpression :: "CheckerState \<Rightarrow> CheckerState" where
  "evaluateBinaryExpression this =
     (case m_operand this of
        BinaryExpression l op r \<Rightarrow>
          (let left = unwrapParentheses l; right = unwrapParentheses r
           in case (op, left) of
                (InKeyword, StringLiteral txt) \<Rightarrow>
                  this\<lparr>m_operand := BinaryExpression l op r, m_propertyObj := Some right,
                       m_propertyName := Some txt\<rparr>
              | _ \<Rightarrow>
                  (let isExprWithEquals = isPositiveEqualityOperator op;
                       isExprWithNotEquals = isNegativeEqualityOperator op;
                       isStrictEquality = isStrictEqualityOperator op
                   in if isExprWithEquals \<or> isExprWithNotEquals
                      then evaluateEqualityExpression this left right isExprWithNotEquals
                             isStrictEquality
                      else this))
      | _ \<Rightarrow> this)"

text \<open>
  \<open>_tryResolveSymbol\<close>. The property name and the property object are always set
  together, so the case of a name without an object is never reached.
\<close>

definition tryResolveSymbol :: "TypeChecker \<Rightarrow> CheckerState \<Rightarrow> Symbol option" where
  "tryResolveSymbol m_typeChecker this =
     (case m_propertyName this of
        Some pn \<Rightarrow>
          (case m_propertyObj this of
             Some obj \<Rightarrow>
               getPropertyOfType m_typeChecker
                 (getApparentType m_typeChecker (getTypeAtLocation m_typeChecker obj)) pn
           | None \<Rightarrow> None)
      | None \<Rightarrow>
          (case m_operand this of
             Identifier nm \<Rightarrow>
               if m_isTypeof this then getSymbolAtLocation m_typeChecker (Identifier nm)
               else None
           | _ \<Rightarrow> None))"

definition evaluate :: "TypeChecker \<Rightarrow> Expression \<Rightarrow> bool option \<Rightarrow> GuardExpression" where
  "evaluate m_typeChecker expr0 mustBePosOrNeg =
     (let (expr, hasLeadingNot) = unwrapNegations expr0;
          s0 = \<lparr>m_operand = expr, m_propertyObj = None, m_propertyName = None,
                m_isTypeof = False, m_isNegative = False\<rparr>;
          s1 = (case expr of BinaryExpression l op r \<Rightarrow> evaluateBinaryExpression s0 | _ \<Rightarrow> s0);
          s2 = (if hasLeadingNot then s1\<lparr>m_isNegative := \<not> m_isNegative s1\<rparr> else s1)
      in if mustBePosOrNeg \<noteq> None \<and> mustBePosOrNeg = Some (m_isNegative s2)
         then GuardExpression (m_operand s2) None (m_isNegative s2)
         else
           let s3 = (case (m_propertyName s2, m_operand s2) of
                       (None, PropertyAccessExpression obj nm) \<Rightarrow>
                         s2\<lparr>m_propertyObj := Some obj, m_propertyName := Some nm\<rparr>
                     | _ \<Rightarrow> s2);
               smb = tryResolveSymbol m_typeChecker s3
           in GuardExpression (m_operand s3) smb (m_isNegative s3))"

text \<open>
  \<open>_evaluateChainOperands\<close>; \<open>guardExprs\<close> is the array the guards are pushed to, returned
  after the call.
\<close>

function evaluateChainOperands ::
  "TypeChecker \<Rightarrow> Expression \<Rightarrow> BinaryOperator \<Rightarrow> GuardExpression list \<Rightarrow> GuardExpression list"
  where
  "evaluateChainOperands m_typeChecker expr op guardExprs =
     (case unwrapParentheses expr of
        BinaryExpression l op' r \<Rightarrow>
          if op' = op
          then evaluateChainOperands m_typeChecker r op
                 (evaluateChainOperands m_typeChecker l op guardExprs)
          else guardExprs @ [evaluate m_typeChecker (BinaryExpression l op' r)
                               (Some (op = AmpersandAmpersandToken))]
      | e \<Rightarrow> guardExprs @ [evaluate m_typeChecker e (Some (op = AmpersandAmpersandToken))])"
  by pat_completeness auto
termination
proof (relation "measure (\<lambda>(tc, expr, op, guardExprs). size expr)")
  show "wf (measure (\<lambda>(tc, expr, op, guardExprs). size expr))" by simp
next
  fix m_typeChecker :: TypeChecker and expr l r :: Expression and op op' :: BinaryOperator
    and guardExprs :: "GuardExpression list"
  assume u: "unwrapParentheses expr = BinaryExpression l op' r"
  have "size (unwrapParentheses e) \<le> size e" for e
    by (induction e rule: unwrapParentheses.induct) simp_all
  from this [of expr] u have "size l < size expr"
    by simp
  then show "((m_typeChecker, l, op, guardExprs), (m_typeChecker, expr, op, guardExprs))
               \<in> measure (\<lambda>(tc, expr, op, guardExprs). size expr)"
    by simp
next
  fix m_typeChecker :: TypeChecker and expr l r :: Expression and op op' :: BinaryOperator
    and guardExprs res :: "GuardExpression list"
  assume u: "unwrapParentheses expr = BinaryExpression l op' r"
  have "size (unwrapParentheses e) \<le> size e" for e
    by (induction e rule: unwrapParentheses.induct) simp_all
  from this [of expr] u have "size r < size expr"
    by simp
  then show "((m_typeChecker, r, op, res), (m_typeChecker, expr, op, guardExprs))
               \<in> measure (\<lambda>(tc, expr, op, guardExprs). size expr)"
    by simp
qed

declare evaluateChainOperands.simps [simp del]

definition evaluateChain :: "TypeChecker \<Rightarrow> Expression \<Rightarrow> GuardResult" where
  "evaluateChain m_typeChecker expr =
     (let (innerExpr, hasLeadingNot) = unwrapNegations expr
      in case innerExpr of
           BinaryExpression l op r \<Rightarrow>
             if op \<noteq> AmpersandAmpersandToken \<and> op \<noteq> BarBarToken
             then IsGuardExpression (evaluate m_typeChecker expr None)
             else IsGuardExprChain
                    (GuardExprChain (evaluateChainOperands m_typeChecker innerExpr op []) op
                       hasLeadingNot)
         | _ \<Rightarrow> IsGuardExpression (evaluate m_typeChecker expr None))"

section \<open>Walker.ts: suppression by enclosing guards\<close>

fun canIssuesBeSuppressedByGuards :: "Issue list \<Rightarrow> bool" where
  "canIssuesBeSuppressedByGuards [] = False"
| "canIssuesBeSuppressedByGuards (issue # rest) =
     (if kind issue = NOT_SUPPORTED \<or> kind issue = NEEDS_PREFIX
         \<or> kind issue = NEEDS_ALT_NAME \<or> kind issue = NEEDS_FLAG
      then True
      else canIssuesBeSuppressedByGuards rest)"

text \<open>
  The loop of \<open>_checkEnclosingGuards\<close>, from index \<open>i\<close> down to 0. The loop starts at
  the last index, so \<open>i\<close> is always an index of the stack.
\<close>

function guardStackLoop :: "Symbol list \<Rightarrow> Declaration option \<Rightarrow> int \<Rightarrow> bool" where
  "guardStackLoop m_guardStack valueDecl i =
     (if i \<ge> 0 \<and> nat i < length m_guardStack then
        (if valueDecl = valueDeclaration (m_guardStack ! nat i) then True
         else guardStackLoop m_guardStack valueDecl (i - 1))
      else False)"
  by pat_completeness auto
termination
  by (relation "measure (\<lambda>(m_guardStack, valueDecl, i). nat (i + 1))") auto

declare guardStackLoop.simps [simp del]

definition checkEnclosingGuards :: "Symbol list \<Rightarrow> Issue list \<Rightarrow> Symbol \<Rightarrow> bool" where
  "checkEnclosingGuards m_guardStack issues symbol =
     (if \<not> canIssuesBeSuppressedByGuards issues then False
      else guardStackLoop m_guardStack (valueDeclaration symbol)
             (int (length m_guardStack) - 1))"

text \<open>
  The end of \<open>_checkPropertyOrEvent\<close>, once the issues of the property are collected:
  nothing is reported when there is no issue or when the guards suppress them, and
  \<open>_reportIssues\<close> reports every issue of the array otherwise. The result is the list of
  the issues reported.
\<close>

definition reportUnlessGuarded :: "Symbol list \<Rightarrow> Issue list \<Rightarrow> Symbol option \<Rightarrow> Issue list" where
  "reportUnlessGuarded m_guardStack issues propSymbol =
     (if length issues = 0 then []
      else case propSymbol of
             Some smb \<Rightarrow> if checkEnclosingGuards m_guardStack issues smb then [] else issues
           | None \<Rightarrow> issues)"

section \<open>Notions of the specification\<close>

text \<open>
  The specification's coverage test, in its own words: fail if the target starts before
  the first statement was added; then sweep the remaining statements with the running
  \<open>lastRemoved\<close>, failing at a statement that opens a gap the target straddles; succeed
  when the target ends before \<open>lastRemoved\<close>.
\<close>

definition vmax :: "Version \<Rightarrow> Version \<Rightarrow> Version" where
  "vmax a b = (if vleq a b then b else a)"

fun sweep :: "Version \<Rightarrow> Version \<Rightarrow> Version \<Rightarrow> SupportStatement list \<Rightarrow> bool" where
  "sweep tmin tmax lastRemoved [] = vless tmax lastRemoved"
| "sweep tmin tmax lastRemoved (s # ss) =
     (if vless lastRemoved (version_added s) \<and> vless tmin (version_added s)
         \<and> vleq lastRemoved tmax
      then False
      else sweep tmin tmax (vmax lastRemoved (version_removed s)) ss)"

fun covers :: "ClientInfo \<Rightarrow> SupportStatement list \<Rightarrow> bool" where
  "covers t [] = False"
| "covers t (s # ss) =
     (if vless (minVersion t) (version_added s) then False
      else sweep (minVersion t) (maxVersion t) (version_removed s) ss)"

text \<open>A version that \<open>Version.create\<close> can return.\<close>

definition validVersion :: "Version \<Rightarrow> bool" where
  "validVersion v = (0 \<le> major v \<and> major v \<le> VERSION_MAX \<and> 0 \<le> minor v \<and> minor v \<le> VERSION_MAX)"

text \<open>A statement's interval meets the target range.\<close>

definition intersects :: "ClientInfo \<Rightarrow> SupportStatement \<Rightarrow> bool" where
  "intersects t s =
     (vleq (version_added s) (maxVersion t) \<and> vless (minVersion t) (version_removed s))"

text \<open>
  The priority order of the issue kinds: the first row of the table whose condition holds
  selects the kind. A property is present when it is truthy; a statement is marked partial
  when \<open>partial_implementation\<close> is \<open>true\<close>.
\<close>

definition priorityTable :: "SupportStatement \<Rightarrow> (bool \<times> IssueKind) list" where
  "priorityTable s =
     [(truthy (prefix s), NEEDS_PREFIX),
      (truthy (alternative_name s), NEEDS_ALT_NAME),
      (truthy (flags s), NEEDS_FLAG),
      (partial_implementation s = Some (JBool True), IS_PARTIAL_IMPL),
      (truthy (notes s), NOTE)]"

definition selectByPriority :: "SupportStatement \<Rightarrow> IssueKind option" where
  "selectByPriority s = map_option snd (find fst (priorityTable s))"

text \<open>The issue that a statement yields once its kind is chosen.\<close>

definition issueOfKind ::
  "string \<Rightarrow> string option \<Rightarrow> string option \<Rightarrow> ClientInfo \<Rightarrow> SupportStatement \<Rightarrow> IssueKind
     \<Rightarrow> Issue" where
  "issueOfKind tn pn u t s k =
     Issue_new (featureNameOf tn pn) t k (snd (getIssueKindAndPrefixFromSupportStatement s))
       (if truthy (notes s) then Some (stripHTMLFromNotes (js_String (the (notes s)))) else None)
       u (version_added s) (version_removed s)"

text \<open>
  The symbol that a \<open>typeof\<close> guard on the expression \<open>x\<close> resolves: the property of the
  object's apparent type when \<open>x\<close> is a property access, the symbol at \<open>x\<close> when it is an
  identifier, none otherwise.
\<close>

definition typeofSymbol :: "TypeChecker \<Rightarrow> Expression \<Rightarrow> Symbol option" where
  "typeofSymbol tc x =
     (case x of
        PropertyAccessExpression obj nm \<Rightarrow>
          getPropertyOfType tc (getApparentType tc (getTypeAtLocation tc obj)) nm
      | Identifier nm \<Rightarrow> getSymbolAtLocation tc (Identifier nm)
      | _ \<Rightarrow> None)"

text \<open>
  The two halves of \<open>evaluate\<close>: the state after the expression has been inspected, and
  the guard resolved from a state.
\<close>

definition initialState :: "Expression \<Rightarrow> CheckerState" where
  "initialState expr =
     \<lparr>m_operand = expr, m_propertyObj = None, m_propertyName = None,
      m_isTypeof = False, m_isNegative = False\<rparr>"

definition analysed :: "Expression \<Rightarrow> CheckerState" where
  "analysed expr =
     (case expr of
        BinaryExpression l op r \<Rightarrow> evaluateBinaryExpression (initialState expr)
      | _ \<Rightarrow> initialState expr)"

definition resolved :: "TypeChecker \<Rightarrow> CheckerState \<Rightarrow> GuardExpression" where
  "resolved tc s2 =
     (let s3 = (case (m_propertyName s2, m_operand s2) of
                  (None, PropertyAccessExpression obj nm) \<Rightarrow>
                    s2\<lparr>m_propertyObj := Some obj, m_propertyName := Some nm\<rparr>
                | _ \<Rightarrow> s2)
      in GuardExpression (m_operand s3) (tryResolveSymbol tc s3) (m_isNegative s3))"

text \<open>
  The leaves of a chain of one operator: parentheses are transparent, a binary expression
  of the same operator is flattened, anything else is one leaf.
\<close>

fun chainLeaves :: "BinaryOperator \<Rightarrow> Expression \<Rightarrow> Expression list" where
  "chainLeaves op (ParenthesizedExpression e) = chainLeaves op e"
| "chainLeaves op (BinaryExpression l op' r) =
     (if op' = op then chainLeaves op l @ chainLeaves op r else [BinaryExpression l op' r])"
| "chainLeaves op e = [e]"

text \<open>The entry stored for a member of a type, if any.\<close>

definition storedMember ::
  "ClientCompatIssueList \<Rightarrow> string \<Rightarrow> string \<Rightarrow> bool \<Rightarrow> IssueEntry option" where
  "storedMember l typeName propName isEvent =
     (case (if isEvent then m_events l else m_properties l) typeName of
        None \<Rightarrow> None
      | Some typeDict \<Rightarrow> typeDict propName)"

text \<open>The kinds of issue that an existence guard can suppress.\<close>

definition suppressibleKinds :: "IssueKind set" where
  "suppressibleKinds = {NOT_SUPPORTED, NEEDS_PREFIX, NEEDS_ALT_NAME, NEEDS_FLAG}"

subsection \<open>Sample data\<close>

abbreviation V :: "int \<Rightarrow> int \<Rightarrow> Version" where
  "V a b \<equiv> \<lparr>major = a, minor = b\<rparr>"

abbreviation plainStatement :: "Version \<Rightarrow> Version \<Rightarrow> SupportStatement" where
  "plainStatement a r \<equiv>
     \<lparr>version_added = a, version_removed = r, prefix = None, alternative_name = None,
      flags = None, partial_implementation = None, notes = None\<rparr>"

abbreviation targetA :: "Version \<Rightarrow> Version \<Rightarrow> ClientInfo" where
  "targetA mn mx \<equiv> ClientInfo_new ''a'' ''Browser A'' mn mx"

definition sampleChecker :: TypeChecker where
  "sampleChecker =
     \<lparr>getTypeAtLocation = (\<lambda>e. 0), getApparentType = (\<lambda>t. t),
      getPropertyOfType = (\<lambda>t nm. None),
      getSymbolAtLocation =
        (\<lambda>e. if e = Identifier ''A'' then Some \<lparr>symbolName = ''A'', valueDeclaration = Some 1\<rparr>
             else None)\<rparr>"

definition symbolA :: Symbol where
  "symbolA = \<lparr>symbolName = ''A'', valueDeclaration = Some 1\<rparr>"

section \<open>Version order\<close>

lemma compare_lt: "(Version_compare a b < 0) = vless a b"
  by (auto simp: Version_compare_def vless_def)

lemma compare_gt: "(Version_compare a b > 0) = vless b a"
  by (auto simp: Version_compare_def vless_def)

lemma compare_ge: "(Version_compare a b \<ge> 0) = vleq b a"
  by (auto simp: Version_compare_def vless_def vleq_def)

lemma compare_le: "(Version_compare a b \<le> 0) = vleq a b"
  by (auto simp: Version_compare_def vless_def vleq_def)

lemma compare_eq: "(Version_compare (a::Version) b = 0) = (a = b)"
  by (auto simp: Version_compare_def)

lemma Version_max_vmax: "Version_max (a::Version) b = vmax a b"
  by (auto simp: Version_max_def vmax_def compare_gt vless_def vleq_def)

lemma vleq_iff_not_vless: "vleq a b = (\<not> vless b a)"
  by (auto simp: vless_def vleq_def)

section \<open>Coverage of a target range by a statement list\<close>

lemma loop_sweep:
  "rangeIntersectionLoop vMin vMax (pre @ rest) (length pre) lr = sweep vMin vMax lr rest"
proof (induction rest arbitrary: pre lr)
  case Nil
  show ?case
    by (subst rangeIntersectionLoop.simps) (simp add: compare_lt)
next
  case (Cons s rest)
  have step: "rangeIntersectionLoop vMin vMax ((pre @ [s]) @ rest) (length (pre @ [s])) lr'
                = sweep vMin vMax lr' rest" for lr'
    by (rule Cons.IH)
  show ?case
    using step
    by (subst rangeIntersectionLoop.simps)
       (simp add: compare_lt compare_gt compare_ge Version_max_vmax)
qed

lemma array_covers:
  assumes "stmts \<noteq> []"
  shows "checkIfSupportedVersionArray t stmts False = Inr (covers t stmts)"
proof (cases stmts)
  case Nil
  with assms show ?thesis by simp
next
  case outer: (Cons s ss)
  show ?thesis
  proof (cases ss)
    case Nil
    with outer show ?thesis
      by (auto simp: checkIfSupportedVersionArray_def checkIfSupportedVersion_def
            compare_lt compare_ge vless_def vleq_def)
  next
    case (Cons s2 ss2)
    have "rangeIntersectionLoop (minVersion t) (maxVersion t) ([s] @ ss) (length [s])
            (version_removed s)
          = sweep (minVersion t) (maxVersion t) (version_removed s) ss"
      by (rule loop_sweep)
    with Cons outer show ?thesis
      by (simp add: checkIfSupportedVersionArray_def checkVersionRangeIntersection_def
            compare_lt)
  qed
qed


lemmas sample_eval =
  checkIfSupportedVersionArray_def checkVersionRangeIntersection_def checkIfSupportedVersion_def
  ClientInfo_new_def rangeIntersectionLoop.simps Version_compare_def Version_max_def

text \<open>
  C2. On every non-empty statement list the coverage test of the code is the sweep of the
  specification: it fails at once when the target starts before the first statement was
  added, otherwise it sweeps with \<open>lastRemoved\<close> and succeeds exactly when the target ends
  before the final \<open>lastRemoved\<close>. The entries [2,4),[3,6) cover the target [2,5]; the
  entries [2,3),[4,6) do not cover [2,5] and do cover [4,5]. The target's end 5 is read
  both as version 5.0 and as the last version 5.999999999 that the range string \<open>2-5\<close>
  denotes.
\<close>

theorem C2_coverage_sweep:
  "(stmts \<noteq> [] \<longrightarrow> checkIfSupportedVersionArray t stmts False = Inr (covers t stmts))
   \<and> checkIfSupportedVersionArray (targetA (V 2 0) (V 5 0))
        [plainStatement (V 2 0) (V 4 0), plainStatement (V 3 0) (V 6 0)] False = Inr True
   \<and> checkIfSupportedVersionArray (targetA (V 2 0) (V 5 0))
        [plainStatement (V 2 0) (V 3 0), plainStatement (V 4 0) (V 6 0)] False = Inr False
   \<and> checkIfSupportedVersionArray (targetA (V 4 0) (V 5 0))
        [plainStatement (V 2 0) (V 3 0), plainStatement (V 4 0) (V 6 0)] False = Inr True
   \<and> checkIfSupportedVersionArray (targetA (V 2 0) (V 5 999999999))
        [plainStatement (V 2 0) (V 4 0), plainStatement (V 3 0) (V 6 0)] False = Inr True
   \<and> checkIfSupportedVersionArray (targetA (V 2 0) (V 5 999999999))
        [plainStatement (V 2 0) (V 3 0), plainStatement (V 4 0) (V 6 0)] False = Inr False
   \<and> checkIfSupportedVersionArray (targetA (V 4 0) (V 5 999999999))
        [plainStatement (V 2 0) (V 3 0), plainStatement (V 4 0) (V 6 0)] False = Inr True"
proof (intro conjI impI)
  assume "stmts \<noteq> []"
  then show "checkIfSupportedVersionArray t stmts False = Inr (covers t stmts)"
    by (rule array_covers)
qed (simp_all add: sample_eval)

theorem C2_coverage_sweep_witness:
  "[plainStatement (V 2 0) (V 3 0), plainStatement (V 4 0) (V 6 0)] \<noteq> []
   \<and> checkIfSupportedVersionArray (targetA (V 2 0) (V 5 0))
        [plainStatement (V 2 0) (V 3 0), plainStatement (V 4 0) (V 6 0)] False
      = Inr (covers (targetA (V 2 0) (V 5 0))
               [plainStatement (V 2 0) (V 3 0), plainStatement (V 4 0) (V 6 0)])
   \<and> \<not> covers (targetA (V 2 0) (V 5 0))
          [plainStatement (V 2 0) (V 3 0), plainStatement (V 4 0) (V 6 0)]"
  using C2_coverage_sweep [of "[plainStatement (V 2 0) (V 3 0), plainStatement (V 4 0) (V 6 0)]"
                              "targetA (V 2 0) (V 5 0)"]
  by (simp add: ClientInfo_new_def vless_def vleq_def vmax_def)

section \<open>Issues of one support statement\<close>

lemma kind_select: "fst (getIssueKindAndPrefixFromSupportStatement s) = selectByPriority s"
  by (simp add: getIssueKindAndPrefixFromSupportStatement_def selectByPriority_def
        priorityTable_def)

lemma intersects_compare:
  "(Version_compare (maxVersion t) (version_added s) < 0
      \<or> Version_compare (minVersion t) (version_removed s) \<ge> 0) = (\<not> intersects t s)"
  by (auto simp: Version_compare_def intersects_def vless_def vleq_def)

lemma kind_issueOfKind: "kind (issueOfKind tn pn u t s k) = k"
  by (simp add: issueOfKind_def Issue_new_def)

lemma makeIssue_unfold:
  "makeIssueFromSupportStatement tn pn u t cf s =
     (if \<not> intersects t s then None
      else case selectByPriority s of
             None \<Rightarrow> None
           | Some k \<Rightarrow> if shouldDiscardIssueBasedOnFlags (issueOfKind tn pn u t s k) cf then None
                       else Some (issueOfKind tn pn u t s k))"
  unfolding makeIssueFromSupportStatement_def Let_def intersects_compare kind_select[symmetric]
    issueOfKind_def
  by (simp split: prod.splits option.splits)

lemma discard_kinds:
  "shouldDiscardIssueBasedOnFlags i cf \<Longrightarrow> kind i = NOTE \<or> kind i = IS_PARTIAL_IMPL"
  by (auto simp: shouldDiscardIssueBasedOnFlags_def split: if_splits)


lemma selectByPriority_not_NS: "selectByPriority s \<noteq> Some NOT_SUPPORTED"
  by (simp add: selectByPriority_def priorityTable_def)

lemma selectByPriority_prefix: "truthy (prefix s) \<Longrightarrow> selectByPriority s = Some NEEDS_PREFIX"
  by (simp add: selectByPriority_def priorityTable_def)

lemma makeIssue_Some:
  "makeIssueFromSupportStatement tn pn u t cf s = Some i \<Longrightarrow>
     intersects t s \<and> selectByPriority s = Some (kind i)"
  by (auto simp: makeIssue_unfold kind_issueOfKind split: if_splits option.splits)

lemma makeIssue_kind_not_NS:
  "makeIssueFromSupportStatement tn pn u t cf s = Some i \<Longrightarrow> kind i \<noteq> NOT_SUPPORTED"
  using makeIssue_Some selectByPriority_not_NS by metis


lemma makeIssue_prefix:
  assumes "intersects t s" and "truthy (prefix s)"
  shows "makeIssueFromSupportStatement tn pn u t cf s = Some (issueOfKind tn pn u t s NEEDS_PREFIX)"
proof -
  have "\<not> shouldDiscardIssueBasedOnFlags (issueOfKind tn pn u t s NEEDS_PREFIX) cf"
    using discard_kinds [of "issueOfKind tn pn u t s NEEDS_PREFIX" cf]
    by (auto simp: kind_issueOfKind)
  with assms show ?thesis
    by (simp add: makeIssue_unfold selectByPriority_prefix)
qed

lemma supported_compare:
  "checkIfSupportedVersion t s False
     = (\<not> (vless (minVersion t) (version_added s) \<or> vleq (version_removed s) (maxVersion t)))"
  by (simp add: checkIfSupportedVersion_def compare_lt compare_ge)

lemma supported_intersects:
  "vleq (minVersion t) (maxVersion t) \<Longrightarrow> checkIfSupportedVersion t s False \<Longrightarrow> intersects t s"
  by (auto simp: supported_compare intersects_def vless_def vleq_def)

text \<open>
  C1 (as amended). For a single support statement the derivation appends exactly one
  NOT_SUPPORTED issue when the target starts before the statement's \<open>version_added\<close> or
  ends at or after its \<open>version_removed\<close>, that is, when the target range is not wholly
  inside the statement's interval. In every other case it appends no NOT_SUPPORTED issue
  and at most one issue.
\<close>

theorem C1_single_statement:
  "(vless (minVersion t) (version_added s) \<or> vleq (version_removed s) (maxVersion t)
      \<longrightarrow> getIssuesFromSingleSupportStatement t tn pn u s cf issues
            = issues @ [makeNotSupportedIssue tn pn t]
          \<and> kind (makeNotSupportedIssue tn pn t) = NOT_SUPPORTED)
   \<and> (\<not> (vless (minVersion t) (version_added s) \<or> vleq (version_removed s) (maxVersion t))
      \<longrightarrow> (\<exists>new. getIssuesFromSingleSupportStatement t tn pn u s cf issues = issues @ new
                \<and> length new \<le> 1 \<and> NOT_SUPPORTED \<notin> kind ` set new))"
proof (intro conjI impI)
  assume "vless (minVersion t) (version_added s) \<or> vleq (version_removed s) (maxVersion t)"
  then have "\<not> checkIfSupportedVersion t s False"
    by (simp add: supported_compare)
  then show "getIssuesFromSingleSupportStatement t tn pn u s cf issues
               = issues @ [makeNotSupportedIssue tn pn t]"
    by (simp add: getIssuesFromSingleSupportStatement_def)
next
  show "kind (makeNotSupportedIssue tn pn t) = NOT_SUPPORTED"
    by (simp add: makeNotSupportedIssue_def Issue_new_def)
next
  assume "\<not> (vless (minVersion t) (version_added s) \<or> vleq (version_removed s) (maxVersion t))"
  then have sup: "checkIfSupportedVersion t s False"
    by (simp add: supported_compare)
  show "\<exists>new. getIssuesFromSingleSupportStatement t tn pn u s cf issues = issues @ new
          \<and> length new \<le> 1 \<and> NOT_SUPPORTED \<notin> kind ` set new"
  proof (cases "makeIssueFromSupportStatement tn pn u t cf s")
    case None
    with sup have "getIssuesFromSingleSupportStatement t tn pn u s cf issues = issues @ []"
      by (simp add: getIssuesFromSingleSupportStatement_def)
    then show ?thesis by fastforce
  next
    case (Some i)
    with sup have "getIssuesFromSingleSupportStatement t tn pn u s cf issues = issues @ [i]"
      by (simp add: getIssuesFromSingleSupportStatement_def)
    moreover have "kind i \<noteq> NOT_SUPPORTED"
      using Some by (rule makeIssue_kind_not_NS)
    ultimately show ?thesis by fastforce
  qed
qed

text \<open>
  The target [2,5] starts before version 3, so a feature added in 3 is reported as
  unsupported; the target [3,5] lies inside the interval and yields nothing.
\<close>

theorem C1_single_statement_witness:
  "vless (minVersion (targetA (V 2 0) (V 5 0))) (version_added (plainStatement (V 3 0) infinite))
   \<and> getIssuesFromSingleSupportStatement (targetA (V 2 0) (V 5 0)) ''Foo'' (Some ''A'') None
        (plainStatement (V 3 0) infinite) 0 []
      = [makeNotSupportedIssue ''Foo'' (Some ''A'') (targetA (V 2 0) (V 5 0))]
   \<and> \<not> (vless (minVersion (targetA (V 3 0) (V 5 0))) (version_added (plainStatement (V 3 0) infinite))
        \<or> vleq (version_removed (plainStatement (V 3 0) infinite)) (maxVersion (targetA (V 3 0) (V 5 0))))
   \<and> getIssuesFromSingleSupportStatement (targetA (V 3 0) (V 5 0)) ''Foo'' (Some ''A'') None
        (plainStatement (V 3 0) infinite) 0 [] = []"
  using C1_single_statement [of "targetA (V 2 0) (V 5 0)" "plainStatement (V 3 0) infinite"
          "''Foo''" "Some ''A''" None 0 "[]"]
        C1_single_statement [of "targetA (V 3 0) (V 5 0)" "plainStatement (V 3 0) infinite"
          "''Foo''" "Some ''A''" None 0 "[]"]
  by (simp add: ClientInfo_new_def vless_def vleq_def infinite_def VERSION_MAX_def
        getIssuesFromSingleSupportStatement_def checkIfSupportedVersion_def Version_compare_def
        makeIssueFromSupportStatement_def getIssueKindAndPrefixFromSupportStatement_def)

text \<open>
  C1 as stated fails: for a feature added in version 3 and never removed, the target [2,5]
  has neither \<open>max < addedAt\<close> nor \<open>min \<ge> removedAt\<close>, and yet the derivation reports
  NOT_SUPPORTED.
\<close>

theorem C1_counterexample:
  "map kind (getIssuesFromSingleSupportStatement (targetA (V 2 0) (V 5 0)) ''Foo'' (Some ''A'') None
        (plainStatement (V 3 0) infinite) 0 []) = [NOT_SUPPORTED]
   \<and> vleq (minVersion (targetA (V 2 0) (V 5 0))) (maxVersion (targetA (V 2 0) (V 5 0)))
   \<and> \<not> (vless (maxVersion (targetA (V 2 0) (V 5 0))) (version_added (plainStatement (V 3 0) infinite))
        \<or> vleq (version_removed (plainStatement (V 3 0) infinite)) (minVersion (targetA (V 2 0) (V 5 0))))"
  by (simp add: ClientInfo_new_def vless_def vleq_def infinite_def VERSION_MAX_def
        getIssuesFromSingleSupportStatement_def checkIfSupportedVersion_def Version_compare_def
        makeNotSupportedIssue_def Issue_new_def)

section \<open>Issues of a statement list\<close>







text \<open>
  C4. The kind chosen for a statement is the first of NEEDS_PREFIX, NEEDS_ALT_NAME,
  NEEDS_FLAG, IS_PARTIAL_IMPL, NOTE whose condition holds, and none when no condition
  holds. A statement yields at most one issue, only when its interval meets the target,
  and that issue has the chosen kind. A statement that has both a prefix and a note and
  meets the target yields exactly one issue, of kind NEEDS_PREFIX, not NOTE.
\<close>

theorem C4_priority_selection:
  "fst (getIssueKindAndPrefixFromSupportStatement s) = selectByPriority s
   \<and> (\<forall>i. makeIssueFromSupportStatement tn pn u t cf s = Some i
          \<longrightarrow> intersects t s \<and> selectByPriority s = Some (kind i))
   \<and> (intersects t s \<and> truthy (prefix s) \<and> truthy (notes s)
        \<longrightarrow> (\<exists>i. makeIssueFromSupportStatement tn pn u t cf s = Some i
                  \<and> kind i = NEEDS_PREFIX \<and> kind i \<noteq> NOTE))
   \<and> (checkIfSupportedVersion t s False \<and> vleq (minVersion t) (maxVersion t)
        \<and> truthy (prefix s) \<and> truthy (notes s)
        \<longrightarrow> (\<exists>i. getIssuesFromSingleSupportStatement t tn pn u s cf issues = issues @ [i]
                  \<and> kind i = NEEDS_PREFIX))"
proof (intro conjI impI allI)
  show "fst (getIssueKindAndPrefixFromSupportStatement s) = selectByPriority s"
    by (rule kind_select)
next
  fix i
  assume "makeIssueFromSupportStatement tn pn u t cf s = Some i"
  then show "intersects t s" and "selectByPriority s = Some (kind i)"
    by (simp_all add: makeIssue_Some)
next
  assume "intersects t s \<and> truthy (prefix s) \<and> truthy (notes s)"
  then have "makeIssueFromSupportStatement tn pn u t cf s
               = Some (issueOfKind tn pn u t s NEEDS_PREFIX)"
    by (simp add: makeIssue_prefix)
  then show "\<exists>i. makeIssueFromSupportStatement tn pn u t cf s = Some i
                  \<and> kind i = NEEDS_PREFIX \<and> kind i \<noteq> NOTE"
    by (simp add: kind_issueOfKind)
next
  assume a: "checkIfSupportedVersion t s False \<and> vleq (minVersion t) (maxVersion t)
        \<and> truthy (prefix s) \<and> truthy (notes s)"
  then have "intersects t s"
    by (simp add: supported_intersects)
  with a have "makeIssueFromSupportStatement tn pn u t cf s
               = Some (issueOfKind tn pn u t s NEEDS_PREFIX)"
    by (simp add: makeIssue_prefix)
  with a have "getIssuesFromSingleSupportStatement t tn pn u s cf issues
                 = issues @ [issueOfKind tn pn u t s NEEDS_PREFIX]"
    by (simp add: getIssuesFromSingleSupportStatement_def)
  then show "\<exists>i. getIssuesFromSingleSupportStatement t tn pn u s cf issues = issues @ [i]
                  \<and> kind i = NEEDS_PREFIX"
    by (simp add: kind_issueOfKind)
qed

text \<open>A statement with prefix \<open>moz\<close> and a note, on the target [2,5].\<close>

theorem C4_priority_selection_witness:
  "intersects (targetA (V 2 0) (V 5 0))
     ((plainStatement (V 2 0) (V 6 0))\<lparr>prefix := Some (JStr ''moz''), notes := Some (JStr ''n'')\<rparr>)
   \<and> checkIfSupportedVersion (targetA (V 2 0) (V 5 0))
     ((plainStatement (V 2 0) (V 6 0))\<lparr>prefix := Some (JStr ''moz''), notes := Some (JStr ''n'')\<rparr>) False
   \<and> truthy (prefix ((plainStatement (V 2 0) (V 6 0))\<lparr>prefix := Some (JStr ''moz''), notes := Some (JStr ''n'')\<rparr>))
   \<and> truthy (notes ((plainStatement (V 2 0) (V 6 0))\<lparr>prefix := Some (JStr ''moz''), notes := Some (JStr ''n'')\<rparr>))
   \<and> map kind (getIssuesFromSingleSupportStatement (targetA (V 2 0) (V 5 0)) ''Foo'' None None
        ((plainStatement (V 2 0) (V 6 0))\<lparr>prefix := Some (JStr ''moz''), notes := Some (JStr ''n'')\<rparr>)
        0 []) = [NEEDS_PREFIX]
   \<and> map_option kind (makeIssueFromSupportStatement ''Foo'' None None (targetA (V 2 0) (V 5 0)) 0
        ((plainStatement (V 2 0) (V 6 0))\<lparr>prefix := Some (JStr ''moz''), notes := Some (JStr ''n'')\<rparr>))
      = Some NEEDS_PREFIX"
proof -
  let ?t = "targetA (V 2 0) (V 5 0)"
  let ?s = "(plainStatement (V 2 0) (V 6 0))\<lparr>prefix := Some (JStr ''moz''), notes := Some (JStr ''n'')\<rparr>"
  have hyp: "intersects ?t ?s \<and> checkIfSupportedVersion ?t ?s False
               \<and> vleq (minVersion ?t) (maxVersion ?t) \<and> truthy (prefix ?s) \<and> truthy (notes ?s)"
    by (simp add: sample_eval intersects_def vless_def vleq_def)
  from C4_priority_selection [of ?s "''Foo''" None None ?t 0 "[]"] hyp
  have "(\<exists>i. makeIssueFromSupportStatement ''Foo'' None None ?t 0 ?s = Some i
              \<and> kind i = NEEDS_PREFIX)
        \<and> (\<exists>i. getIssuesFromSingleSupportStatement ?t ''Foo'' None None ?s 0 [] = [] @ [i]
              \<and> kind i = NEEDS_PREFIX)"
    by blast
  then have "map_option kind (makeIssueFromSupportStatement ''Foo'' None None ?t 0 ?s)
               = Some NEEDS_PREFIX
             \<and> map kind (getIssuesFromSingleSupportStatement ?t ''Foo'' None None ?s 0 [])
               = [NEEDS_PREFIX]"
    by auto
  with hyp show ?thesis by blast
qed

text \<open>
  C10. When a feature has a compat statement whose support object has no entry of its own
  for the client, the derivation appends exactly one NOT_SUPPORTED issue for that client,
  provided the client's name is not the name of a property of \<open>Object.prototype\<close>; when
  the feature has no compat statement, it appends nothing, whatever the client. For a
  client named like a property of \<open>Object.prototype\<close>, the lookup finds the inherited
  value and the derivation throws a \<open>TypeError\<close> instead of reporting NOT_SUPPORTED: so it
  does for the client \<open>constructor\<close> on a feature that lists only \<open>chrome\<close>.
\<close>

theorem C10_missing_client_record:
  "(support cs (name t) = None \<and> name t \<notin> set objectPrototypeNames
      \<longrightarrow> getIssuesFromCompatStatement t tn pn (Some cs) cf issues
            = Inr (issues @ [makeNotSupportedIssue tn pn t])
          \<and> kind (makeNotSupportedIssue tn pn t) = NOT_SUPPORTED
          \<and> clientInfo (makeNotSupportedIssue tn pn t) = t)
   \<and> (support cs (name t) = None \<and> name t \<in> set objectPrototypeNames
      \<longrightarrow> getIssuesFromCompatStatement t tn pn (Some cs) cf issues = Inl TypeError)
   \<and> getIssuesFromCompatStatement t tn pn None cf issues = Inr issues
   \<and> getIssuesFromCompatStatement
         (ClientInfo_new ''constructor'' ''Object'' (V 24 0) maxVal) ''Foo'' None
         (Some \<lparr>support = [''chrome'' \<mapsto> Single (plainStatement minVal infinite)],
                mdn_url = None\<rparr>)
         0 []
       = Inl TypeError"
proof (intro conjI impI)
  assume "support cs (name t) = None \<and> name t \<notin> set objectPrototypeNames"
  then show "getIssuesFromCompatStatement t tn pn (Some cs) cf issues
               = Inr (issues @ [makeNotSupportedIssue tn pn t])"
    by (simp add: getIssuesFromCompatStatement_def getProperty_def)
next
  show "kind (makeNotSupportedIssue tn pn t) = NOT_SUPPORTED"
    by (simp add: makeNotSupportedIssue_def Issue_new_def)
next
  show "clientInfo (makeNotSupportedIssue tn pn t) = t"
    by (simp add: makeNotSupportedIssue_def Issue_new_def)
next
  assume "support cs (name t) = None \<and> name t \<in> set objectPrototypeNames"
  then show "getIssuesFromCompatStatement t tn pn (Some cs) cf issues = Inl TypeError"
    by (simp add: getIssuesFromCompatStatement_def getProperty_def)
next
  show "getIssuesFromCompatStatement t tn pn None cf issues = Inr issues"
    by (simp add: getIssuesFromCompatStatement_def)
next
  show "getIssuesFromCompatStatement
         (ClientInfo_new ''constructor'' ''Object'' (V 24 0) maxVal) ''Foo'' None
         (Some \<lparr>support = [''chrome'' \<mapsto> Single (plainStatement minVal infinite)],
                mdn_url = None\<rparr>)
         0 []
       = Inl TypeError"
    by (simp add: getIssuesFromCompatStatement_def getProperty_def objectPrototypeNames_def
          ClientInfo_new_def)
qed

text \<open>
  A compat statement that lists only client \<open>b\<close>, asked about client \<open>a\<close> and about a
  client named \<open>toString\<close>.
\<close>

theorem C10_missing_client_record_witness:
  "support \<lparr>support = [''b'' \<mapsto> Single (plainStatement minVal infinite)], mdn_url = None\<rparr>
      (name (targetA (V 2 0) (V 5 0))) = None
   \<and> name (targetA (V 2 0) (V 5 0)) \<notin> set objectPrototypeNames
   \<and> map_sum id (map kind)
        (getIssuesFromCompatStatement (targetA (V 2 0) (V 5 0)) ''Foo'' None
           (Some \<lparr>support = [''b'' \<mapsto> Single (plainStatement minVal infinite)], mdn_url = None\<rparr>)
           0 []) = Inr [NOT_SUPPORTED]
   \<and> support \<lparr>support = [''b'' \<mapsto> Single (plainStatement minVal infinite)], mdn_url = None\<rparr>
      (name (ClientInfo_new ''toString'' ''toString'' (V 2 0) (V 5 0))) = None
   \<and> name (ClientInfo_new ''toString'' ''toString'' (V 2 0) (V 5 0)) \<in> set objectPrototypeNames
   \<and> getIssuesFromCompatStatement (ClientInfo_new ''toString'' ''toString'' (V 2 0) (V 5 0))
        ''Foo'' None
        (Some \<lparr>support = [''b'' \<mapsto> Single (plainStatement minVal infinite)], mdn_url = None\<rparr>)
        0 [] = Inl TypeError"
proof -
  let ?cs = "\<lparr>support = [''b'' \<mapsto> Single (plainStatement minVal infinite)], mdn_url = None\<rparr>"
  let ?a = "targetA (V 2 0) (V 5 0)"
  let ?ts = "ClientInfo_new ''toString'' ''toString'' (V 2 0) (V 5 0)"
  have ha: "support ?cs (name ?a) = None \<and> name ?a \<notin> set objectPrototypeNames"
    by (simp add: ClientInfo_new_def objectPrototypeNames_def)
  have hts: "support ?cs (name ?ts) = None \<and> name ?ts \<in> set objectPrototypeNames"
    by (simp add: ClientInfo_new_def objectPrototypeNames_def)
  from C10_missing_client_record [of ?cs ?a "''Foo''" None 0 "[]"] ha
  have "getIssuesFromCompatStatement ?a ''Foo'' None (Some ?cs) 0 []
          = Inr ([] @ [makeNotSupportedIssue ''Foo'' None ?a])
        \<and> kind (makeNotSupportedIssue ''Foo'' None ?a) = NOT_SUPPORTED"
    by blast
  then have ca: "map_sum id (map kind)
                   (getIssuesFromCompatStatement ?a ''Foo'' None (Some ?cs) 0 [])
                 = Inr [NOT_SUPPORTED]"
    by simp
  from C10_missing_client_record [of ?cs ?ts "''Foo''" None 0 "[]"] hts
  have cts: "getIssuesFromCompatStatement ?ts ''Foo'' None (Some ?cs) 0 [] = Inl TypeError"
    by blast
  from ha hts ca cts show ?thesis
    by blast
qed

section \<open>Guard expressions\<close>

lemma size_unwrapParentheses: "size (unwrapParentheses e) \<le> size e"
  by (induction e rule: unwrapParentheses.induct) simp_all

lemma unwrapParentheses_idem: "unwrapParentheses (unwrapParentheses e) = unwrapParentheses e"
  by (induction e rule: unwrapParentheses.induct) simp_all

lemma unwrapNegationsLoop_not:
  "unwrapParentheses e = PrefixUnaryExpression ExclamationToken opnd
     \<Longrightarrow> unwrapNegationsLoop e b = unwrapNegationsLoop opnd (\<not> b)"
  by (subst unwrapNegationsLoop.simps) simp

lemma unwrapNegationsLoop_stop:
  "\<forall>opnd. unwrapParentheses e \<noteq> PrefixUnaryExpression ExclamationToken opnd
     \<Longrightarrow> unwrapNegationsLoop e b = (unwrapParentheses e, b)"
  by (subst unwrapNegationsLoop.simps)
     (auto split: Expression.splits PrefixUnaryOperator.splits)

lemma unwrapNegationsLoop_flag:
  "unwrapNegationsLoop e b
     = (fst (unwrapNegationsLoop e False), b \<noteq> snd (unwrapNegationsLoop e False))"
proof (induction e arbitrary: b rule: measure_induct_rule [where f = size])
  case (less e)
  show ?case
  proof (cases "\<exists>opnd. unwrapParentheses e = PrefixUnaryExpression ExclamationToken opnd")
    case True
    then obtain opnd where u: "unwrapParentheses e = PrefixUnaryExpression ExclamationToken opnd"
      by blast
    from size_unwrapParentheses [of e] u have "size opnd < size e"
      by simp
    note ih = less.IH [OF this]
    have "unwrapNegationsLoop e b = unwrapNegationsLoop opnd (\<not> b)"
      using u by (rule unwrapNegationsLoop_not)
    also have "\<dots> = (fst (unwrapNegationsLoop opnd False),
                     (\<not> b) \<noteq> snd (unwrapNegationsLoop opnd False))"
      by (rule ih)
    finally have a: "unwrapNegationsLoop e b
        = (fst (unwrapNegationsLoop opnd False), (\<not> b) \<noteq> snd (unwrapNegationsLoop opnd False))" .
    have "unwrapNegationsLoop e False = unwrapNegationsLoop opnd (\<not> False)"
      using u by (rule unwrapNegationsLoop_not)
    also have "\<dots> = (fst (unwrapNegationsLoop opnd False),
                     (\<not> False) \<noteq> snd (unwrapNegationsLoop opnd False))"
      by (rule ih)
    finally have b: "unwrapNegationsLoop e False
        = (fst (unwrapNegationsLoop opnd False), (\<not> False) \<noteq> snd (unwrapNegationsLoop opnd False))" .
    show ?thesis
      unfolding a b by auto
  next
    case False
    then show ?thesis
      by (simp add: unwrapNegationsLoop_stop)
  qed
qed

lemma unwrapNegations_not:
  "unwrapNegations (PrefixUnaryExpression ExclamationToken e)
     = (fst (unwrapNegations e), \<not> snd (unwrapNegations e))"
proof -
  have "unwrapNegationsLoop (PrefixUnaryExpression ExclamationToken e) False
          = unwrapNegationsLoop e True"
    by (simp add: unwrapNegationsLoop_not)
  also have "\<dots> = (fst (unwrapNegationsLoop e False), True \<noteq> snd (unwrapNegationsLoop e False))"
    by (rule unwrapNegationsLoop_flag)
  finally show ?thesis
    by (simp add: unwrapNegations_def)
qed

lemma unwrapNegations_paren:
  "unwrapNegations (ParenthesizedExpression e) = unwrapNegations e"
  unfolding unwrapNegations_def
  by (subst unwrapNegationsLoop.simps, subst (2) unwrapNegationsLoop.simps) simp

lemma unwrapNegations_binary:
  "unwrapNegations (BinaryExpression l op r) = (BinaryExpression l op r, False)"
  by (simp add: unwrapNegations_def unwrapNegationsLoop_stop)

lemma evaluate_unfold:
  "evaluate tc e0 m =
     (let (expr, hasLeadingNot) = unwrapNegations e0;
          s1 = analysed expr;
          s2 = (if hasLeadingNot then s1\<lparr>m_isNegative := \<not> m_isNegative s1\<rparr> else s1)
      in if m \<noteq> None \<and> m = Some (m_isNegative s2)
         then GuardExpression (m_operand s2) None (m_isNegative s2)
         else resolved tc s2)"
  unfolding evaluate_def analysed_def resolved_def initialState_def Let_def
  by (rule refl)

lemma resolved_sel:
  "operand (resolved tc s) = m_operand s" "isNegated (resolved tc s) = m_isNegative s"
  by (simp_all add: resolved_def Let_def split: option.splits Expression.splits)

lemma resolved_flip:
  "guardedSymbol (resolved tc (s\<lparr>m_isNegative := b\<rparr>)) = guardedSymbol (resolved tc s)"
  by (simp add: resolved_def Let_def tryResolveSymbol_def split: option.splits Expression.splits)

lemma evaluate_not:
  "evaluate tc (PrefixUnaryExpression ExclamationToken e) None
     = GuardExpression (operand (evaluate tc e None)) (guardedSymbol (evaluate tc e None))
         (\<not> isNegated (evaluate tc e None))"
proof (cases "unwrapNegations e")
  case (Pair expr n)
  show ?thesis
    by (cases n)
       (simp_all add: evaluate_unfold unwrapNegations_not Pair Let_def resolved_sel resolved_flip
          GuardExpression.expand)
qed

lemma evaluate_required:
  "evaluate tc e (Some req)
     = (if isNegated (evaluate tc e None) = req
        then GuardExpression (operand (evaluate tc e None)) None (isNegated (evaluate tc e None))
        else evaluate tc e None)"
proof (cases "unwrapNegations e")
  case (Pair expr n)
  show ?thesis
    by (cases n) (auto simp: evaluate_unfold Pair Let_def resolved_sel)
qed

lemma resolved_typeof:
  "resolved tc \<lparr>m_operand = x, m_propertyObj = None, m_propertyName = None,
                 m_isTypeof = True, m_isNegative = b\<rparr>
     = GuardExpression x (typeofSymbol tc x) b"
  by (cases x) (simp_all add: resolved_def tryResolveSymbol_def typeofSymbol_def)

lemma resolved_unrecognised:
  "resolved tc (initialState (BinaryExpression l op r))
     = GuardExpression (BinaryExpression l op r) None False"
  by (simp add: resolved_def tryResolveSymbol_def initialState_def)

lemma equality_operator_cases:
  "isPositiveEqualityOperator op \<or> isNegativeEqualityOperator op \<Longrightarrow>
     op = EqualsEqualsToken \<or> op = EqualsEqualsEqualsToken
     \<or> op = ExclamationEqualsToken \<or> op = ExclamationEqualsEqualsToken"
  by (auto simp: isPositiveEqualityOperator_def isNegativeEqualityOperator_def)

lemma analysed_typeof:
  assumes "unwrapParentheses l = TypeOfExpression x \<and> unwrapParentheses r = StringLiteral txt
           \<or> unwrapParentheses l = StringLiteral txt \<and> unwrapParentheses r = TypeOfExpression x"
    and "isPositiveEqualityOperator op \<or> isNegativeEqualityOperator op"
  shows "analysed (BinaryExpression l op r)
           = evaluateTypeofCheckExpression (initialState (BinaryExpression l op r)) x txt
               (isNegativeEqualityOperator op)"
proof -
  from assms(2) have ops: "op \<noteq> InKeyword"
    by (auto simp: isPositiveEqualityOperator_def isNegativeEqualityOperator_def)
  from assms(1) show ?thesis
  proof
    assume "unwrapParentheses l = TypeOfExpression x \<and> unwrapParentheses r = StringLiteral txt"
    with assms(2) ops show ?thesis
      by (cases op)
         (simp_all add: analysed_def evaluateBinaryExpression_def initialState_def
            evaluateEqualityExpression_def isStringLiteralOrNullOrUndefined_def
            isUndefinedExpression_def)
  next
    assume "unwrapParentheses l = StringLiteral txt \<and> unwrapParentheses r = TypeOfExpression x"
    with assms(2) ops show ?thesis
      by (cases op)
         (simp_all add: analysed_def evaluateBinaryExpression_def initialState_def
            evaluateEqualityExpression_def isStringLiteralOrNullOrUndefined_def
            isUndefinedExpression_def)
  qed
qed

lemma evaluate_binary:
  "evaluate tc (BinaryExpression l op r) None = resolved tc (analysed (BinaryExpression l op r))"
  by (simp add: evaluate_unfold unwrapNegations_binary)

lemma evaluate_typeof:
  assumes "unwrapParentheses l = TypeOfExpression x \<and> unwrapParentheses r = StringLiteral txt
           \<or> unwrapParentheses l = StringLiteral txt \<and> unwrapParentheses r = TypeOfExpression x"
    and "isPositiveEqualityOperator op \<or> isNegativeEqualityOperator op"
  shows "evaluate tc (BinaryExpression l op r) None =
           (if txt = ''undefined''
            then GuardExpression (unwrapParentheses x) (typeofSymbol tc (unwrapParentheses x))
                   (\<not> isNegativeEqualityOperator op)
            else if \<not> isNegativeEqualityOperator op
            then GuardExpression (unwrapParentheses x) (typeofSymbol tc (unwrapParentheses x)) False
            else GuardExpression (BinaryExpression l op r) None False)"
  unfolding evaluate_binary analysed_typeof [OF assms] evaluateTypeofCheckExpression_def
  using resolved_typeof [of tc "unwrapParentheses x"] resolved_unrecognised [of tc l op r]
  by (simp add: initialState_def)

lemma typeofSymbol_sample: "typeofSymbol sampleChecker (Identifier ''A'') = Some symbolA"
  by (simp add: typeofSymbol_def sampleChecker_def symbolA_def)

text \<open>
  C5. Let a comparison have a \<open>typeof\<close> expression on \<open>x\<close> on one side and a string
  literal on the other, either side possibly in parentheses. Against \<open>'undefined'\<close>,
  \<open>===\<close> and \<open>==\<close> give a negative guard on \<open>x\<close>, \<open>!==\<close> and \<open>!=\<close> a positive guard on
  \<open>x\<close>. Against any other string, \<open>===\<close> and \<open>==\<close> give a positive guard on \<open>x\<close>, and
  \<open>!==\<close> and \<open>!=\<close> are not recognised: the operand is the whole comparison and no symbol
  is resolved. A leading \<open>!\<close> on any expression flips the polarity and keeps the operand
  and the symbol; parentheses around an expression change nothing.
\<close>

theorem C5_typeof_guards:
  "(unwrapParentheses l = TypeOfExpression x \<and> unwrapParentheses r = StringLiteral txt
      \<or> unwrapParentheses l = StringLiteral txt \<and> unwrapParentheses r = TypeOfExpression x
    \<longrightarrow>
      (txt = ''undefined'' \<and> (op = EqualsEqualsEqualsToken \<or> op = EqualsEqualsToken)
         \<longrightarrow> evaluate tc (BinaryExpression l op r) None
              = GuardExpression (unwrapParentheses x) (typeofSymbol tc (unwrapParentheses x)) True)
    \<and> (txt = ''undefined'' \<and> (op = ExclamationEqualsEqualsToken \<or> op = ExclamationEqualsToken)
         \<longrightarrow> evaluate tc (BinaryExpression l op r) None
              = GuardExpression (unwrapParentheses x) (typeofSymbol tc (unwrapParentheses x)) False)
    \<and> (txt \<noteq> ''undefined'' \<and> (op = EqualsEqualsEqualsToken \<or> op = EqualsEqualsToken)
         \<longrightarrow> evaluate tc (BinaryExpression l op r) None
              = GuardExpression (unwrapParentheses x) (typeofSymbol tc (unwrapParentheses x)) False)
    \<and> (txt \<noteq> ''undefined'' \<and> (op = ExclamationEqualsEqualsToken \<or> op = ExclamationEqualsToken)
         \<longrightarrow> evaluate tc (BinaryExpression l op r) None
              = GuardExpression (BinaryExpression l op r) None False))
   \<and> evaluate tc (PrefixUnaryExpression ExclamationToken e) None
       = GuardExpression (operand (evaluate tc e None)) (guardedSymbol (evaluate tc e None))
           (\<not> isNegated (evaluate tc e None))
   \<and> evaluate tc (ParenthesizedExpression e) None = evaluate tc e None"
proof (intro conjI impI)
  assume shape: "unwrapParentheses l = TypeOfExpression x \<and> unwrapParentheses r = StringLiteral txt
      \<or> unwrapParentheses l = StringLiteral txt \<and> unwrapParentheses r = TypeOfExpression x"
  assume "txt = ''undefined'' \<and> (op = EqualsEqualsEqualsToken \<or> op = EqualsEqualsToken)"
  then show "evaluate tc (BinaryExpression l op r) None
              = GuardExpression (unwrapParentheses x) (typeofSymbol tc (unwrapParentheses x)) True"
    using evaluate_typeof [OF shape, of op tc]
    by (auto simp: isPositiveEqualityOperator_def isNegativeEqualityOperator_def)
next
  assume shape: "unwrapParentheses l = TypeOfExpression x \<and> unwrapParentheses r = StringLiteral txt
      \<or> unwrapParentheses l = StringLiteral txt \<and> unwrapParentheses r = TypeOfExpression x"
  assume "txt = ''undefined''
            \<and> (op = ExclamationEqualsEqualsToken \<or> op = ExclamationEqualsToken)"
  then show "evaluate tc (BinaryExpression l op r) None
              = GuardExpression (unwrapParentheses x) (typeofSymbol tc (unwrapParentheses x)) False"
    using evaluate_typeof [OF shape, of op tc]
    by (auto simp: isPositiveEqualityOperator_def isNegativeEqualityOperator_def)
next
  assume shape: "unwrapParentheses l = TypeOfExpression x \<and> unwrapParentheses r = StringLiteral txt
      \<or> unwrapParentheses l = StringLiteral txt \<and> unwrapParentheses r = TypeOfExpression x"
  assume "txt \<noteq> ''undefined'' \<and> (op = EqualsEqualsEqualsToken \<or> op = EqualsEqualsToken)"
  then show "evaluate tc (BinaryExpression l op r) None
              = GuardExpression (unwrapParentheses x) (typeofSymbol tc (unwrapParentheses x)) False"
    using evaluate_typeof [OF shape, of op tc]
    by (auto simp: isPositiveEqualityOperator_def isNegativeEqualityOperator_def)
next
  assume shape: "unwrapParentheses l = TypeOfExpression x \<and> unwrapParentheses r = StringLiteral txt
      \<or> unwrapParentheses l = StringLiteral txt \<and> unwrapParentheses r = TypeOfExpression x"
  assume "txt \<noteq> ''undefined''
            \<and> (op = ExclamationEqualsEqualsToken \<or> op = ExclamationEqualsToken)"
  then show "evaluate tc (BinaryExpression l op r) None
              = GuardExpression (BinaryExpression l op r) None False"
    using evaluate_typeof [OF shape, of op tc]
    by (auto simp: isPositiveEqualityOperator_def isNegativeEqualityOperator_def)
next
  show "evaluate tc (PrefixUnaryExpression ExclamationToken e) None
       = GuardExpression (operand (evaluate tc e None)) (guardedSymbol (evaluate tc e None))
           (\<not> isNegated (evaluate tc e None))"
    by (rule evaluate_not)
next
  show "evaluate tc (ParenthesizedExpression e) None = evaluate tc e None"
    by (simp add: evaluate_unfold unwrapNegations_paren)
qed

text \<open>The four forms, on a global \<open>A\<close> that the sample type checker resolves.\<close>

theorem C5_typeof_guards_witness:
  "evaluate sampleChecker
     (BinaryExpression (TypeOfExpression (ParenthesizedExpression (Identifier ''A'')))
        EqualsEqualsEqualsToken (StringLiteral ''undefined'')) None
     = GuardExpression (Identifier ''A'') (Some symbolA) True
   \<and> evaluate sampleChecker
       (BinaryExpression (TypeOfExpression (ParenthesizedExpression (Identifier ''A'')))
          ExclamationEqualsEqualsToken (StringLiteral ''undefined'')) None
     = GuardExpression (Identifier ''A'') (Some symbolA) False
   \<and> evaluate sampleChecker
       (BinaryExpression (StringLiteral ''function'') EqualsEqualsToken
          (TypeOfExpression (Identifier ''A''))) None
     = GuardExpression (Identifier ''A'') (Some symbolA) False
   \<and> evaluate sampleChecker
       (BinaryExpression (TypeOfExpression (Identifier ''A'')) ExclamationEqualsToken
          (StringLiteral ''function'')) None
     = GuardExpression
         (BinaryExpression (TypeOfExpression (Identifier ''A'')) ExclamationEqualsToken
            (StringLiteral ''function'')) None False"
  using C5_typeof_guards [of "TypeOfExpression (ParenthesizedExpression (Identifier ''A''))"
          "ParenthesizedExpression (Identifier ''A'')" "StringLiteral ''undefined''"
          "''undefined''" EqualsEqualsEqualsToken sampleChecker]
        C5_typeof_guards [of "TypeOfExpression (ParenthesizedExpression (Identifier ''A''))"
          "ParenthesizedExpression (Identifier ''A'')" "StringLiteral ''undefined''"
          "''undefined''" ExclamationEqualsEqualsToken sampleChecker]
        C5_typeof_guards [of "StringLiteral ''function''" "Identifier ''A''"
          "TypeOfExpression (Identifier ''A'')" "''function''" EqualsEqualsToken sampleChecker]
        C5_typeof_guards [of "TypeOfExpression (Identifier ''A'')" "Identifier ''A''"
          "StringLiteral ''function''" "''function''" ExclamationEqualsToken sampleChecker]
  by (simp add: typeofSymbol_sample)

lemma unwrapParentheses_not_paren: "unwrapParentheses e \<noteq> ParenthesizedExpression e'"
  by (induction e rule: unwrapParentheses.induct) simp_all

lemma chainLeaves_unwrap: "chainLeaves op (unwrapParentheses e) = chainLeaves op e"
  by (induction e rule: unwrapParentheses.induct) simp_all

lemma chainLeaves_leaf:
  assumes "\<forall>l op' r. unwrapParentheses e \<noteq> BinaryExpression l op' r"
  shows "chainLeaves op e = [unwrapParentheses e]"
proof -
  have "chainLeaves op (unwrapParentheses e) = [unwrapParentheses e]"
    using assms
    by (cases "unwrapParentheses e") (simp_all add: unwrapParentheses_not_paren)
  then show ?thesis
    by (simp add: chainLeaves_unwrap)
qed

lemma evaluateChainOperands_leaf:
  assumes "\<forall>l op' r. unwrapParentheses e \<noteq> BinaryExpression l op' r"
  shows "evaluateChainOperands tc e op g
           = g @ [evaluate tc (unwrapParentheses e) (Some (op = AmpersandAmpersandToken))]"
  using assms
  by (subst evaluateChainOperands.simps) (simp split: Expression.splits)

lemma evaluateChainOperands_leaves:
  "evaluateChainOperands tc e op g
     = g @ map (\<lambda>leaf. evaluate tc leaf (Some (op = AmpersandAmpersandToken))) (chainLeaves op e)"
proof (induction tc e op g rule: evaluateChainOperands.induct)
  case (1 tc expr op guardExprs)
  show ?case
  proof (cases "\<exists>l op' r. unwrapParentheses expr = BinaryExpression l op' r")
    case True
    then obtain l op' r where bin: "unwrapParentheses expr = BinaryExpression l op' r"
      by blast
    show ?thesis
    proof (cases "op' = op")
      case True
      note ih1 = "1.IH"(1) [OF bin True]
      note ih2 = "1.IH"(2) [OF bin True]
      have "chainLeaves op expr = chainLeaves op l @ chainLeaves op r"
        using chainLeaves_unwrap [of op expr] bin True by simp
      then show ?thesis
        by (subst evaluateChainOperands.simps) (simp add: bin True ih2, simp add: ih1)
    next
      case False
      have "chainLeaves op expr = [BinaryExpression l op' r]"
        using chainLeaves_unwrap [of op expr] bin False by simp
      then show ?thesis
        by (subst evaluateChainOperands.simps) (simp add: bin False)
    qed
  next
    case False
    then have leaf: "\<forall>l op' r. unwrapParentheses expr \<noteq> BinaryExpression l op' r"
      by blast
    show ?thesis
      by (simp add: evaluateChainOperands_leaf [OF leaf] chainLeaves_leaf [OF leaf])
  qed
qed

text \<open>
  C6. When the expression under its leading negations is an AND or OR expression,
  \<open>evaluateChain\<close> returns the chain of the guards of its leaves, in order, where only
  contiguous uses of the same operator are flattened; each leaf of an AND chain is
  evaluated with required polarity positive and each leaf of an OR chain with required
  polarity negative. A parenthesised expression of the other operator is one leaf. A guard
  evaluated with a required polarity that its polarity does not match keeps its operand
  and polarity and loses its symbol; otherwise it is the guard evaluated with no
  requirement.
\<close>

theorem C6_chain_flattening:
  "(unwrapNegations expr = (BinaryExpression l op r, neg)
      \<and> (op = AmpersandAmpersandToken \<or> op = BarBarToken)
    \<longrightarrow> evaluateChain tc expr
          = IsGuardExprChain
              (GuardExprChain
                 (map (\<lambda>leaf. evaluate tc leaf (Some (op = AmpersandAmpersandToken)))
                    (chainLeaves op l @ chainLeaves op r))
                 op neg))
   \<and> (op' \<noteq> op
      \<longrightarrow> evaluateChainOperands tc (ParenthesizedExpression (BinaryExpression a op' b)) op g
          = g @ [evaluate tc (BinaryExpression a op' b) (Some (op = AmpersandAmpersandToken))])
   \<and> evaluate tc e (Some req)
       = (if isNegated (evaluate tc e None) = req
          then GuardExpression (operand (evaluate tc e None)) None
                 (isNegated (evaluate tc e None))
          else evaluate tc e None)"
proof (intro conjI impI)
  assume a: "unwrapNegations expr = (BinaryExpression l op r, neg)
               \<and> (op = AmpersandAmpersandToken \<or> op = BarBarToken)"
  then have "evaluateChain tc expr
               = IsGuardExprChain
                   (GuardExprChain (evaluateChainOperands tc (BinaryExpression l op r) op [])
                      op neg)"
    by (auto simp: evaluateChain_def)
  then show "evaluateChain tc expr
          = IsGuardExprChain
              (GuardExprChain
                 (map (\<lambda>leaf. evaluate tc leaf (Some (op = AmpersandAmpersandToken)))
                    (chainLeaves op l @ chainLeaves op r))
                 op neg)"
    by (simp add: evaluateChainOperands_leaves)
next
  assume "op' \<noteq> op"
  then show "evaluateChainOperands tc (ParenthesizedExpression (BinaryExpression a op' b)) op g
          = g @ [evaluate tc (BinaryExpression a op' b) (Some (op = AmpersandAmpersandToken))]"
    by (simp add: evaluateChainOperands_leaves)
next
  show "evaluate tc e (Some req)
       = (if isNegated (evaluate tc e None) = req
          then GuardExpression (operand (evaluate tc e None)) None
                 (isNegated (evaluate tc e None))
          else evaluate tc e None)"
    by (rule evaluate_required)
qed

lemmas guard_eval =
  evaluate_unfold unwrapNegations_binary analysed_def initialState_def resolved_def
  evaluateBinaryExpression_def evaluateEqualityExpression_def evaluateTypeofCheckExpression_def
  isPositiveEqualityOperator_def isNegativeEqualityOperator_def isStrictEqualityOperator_def
  isStringLiteralOrNullOrUndefined_def isUndefinedExpression_def tryResolveSymbol_def
  sampleChecker_def symbolA_def Let_def

text \<open>
  The chain \<open>typeof A !== 'undefined' && (b || c) && typeof A === 'undefined'\<close> has three
  leaves: a positive guard on \<open>A\<close>, the OR expression as one guard without symbol, and a
  negative guard on \<open>A\<close> that loses its symbol, an AND chain requiring positive guards.
\<close>

theorem C6_chain_flattening_witness:
  "unwrapNegations
     (BinaryExpression
        (BinaryExpression
           (BinaryExpression (TypeOfExpression (Identifier ''A'')) ExclamationEqualsEqualsToken
              (StringLiteral ''undefined''))
           AmpersandAmpersandToken
           (ParenthesizedExpression
              (BinaryExpression (Identifier ''b'') BarBarToken (Identifier ''c''))))
        AmpersandAmpersandToken
        (BinaryExpression (TypeOfExpression (Identifier ''A'')) EqualsEqualsEqualsToken
           (StringLiteral ''undefined'')))
     = (BinaryExpression
        (BinaryExpression
           (BinaryExpression (TypeOfExpression (Identifier ''A'')) ExclamationEqualsEqualsToken
              (StringLiteral ''undefined''))
           AmpersandAmpersandToken
           (ParenthesizedExpression
              (BinaryExpression (Identifier ''b'') BarBarToken (Identifier ''c''))))
        AmpersandAmpersandToken
        (BinaryExpression (TypeOfExpression (Identifier ''A'')) EqualsEqualsEqualsToken
           (StringLiteral ''undefined'')), False)
   \<and> evaluateChain sampleChecker
       (BinaryExpression
        (BinaryExpression
           (BinaryExpression (TypeOfExpression (Identifier ''A'')) ExclamationEqualsEqualsToken
              (StringLiteral ''undefined''))
           AmpersandAmpersandToken
           (ParenthesizedExpression
              (BinaryExpression (Identifier ''b'') BarBarToken (Identifier ''c''))))
        AmpersandAmpersandToken
        (BinaryExpression (TypeOfExpression (Identifier ''A'')) EqualsEqualsEqualsToken
           (StringLiteral ''undefined'')))
     = IsGuardExprChain
         (GuardExprChain
            [GuardExpression (Identifier ''A'') (Some symbolA) False,
             GuardExpression
               (BinaryExpression (Identifier ''b'') BarBarToken (Identifier ''c'')) None False,
             GuardExpression (Identifier ''A'') None True]
            AmpersandAmpersandToken False)
   \<and> BarBarToken \<noteq> AmpersandAmpersandToken
   \<and> evaluateChainOperands sampleChecker
       (ParenthesizedExpression
          (BinaryExpression (Identifier ''b'') BarBarToken (Identifier ''c'')))
       AmpersandAmpersandToken []
     = [GuardExpression
          (BinaryExpression (Identifier ''b'') BarBarToken (Identifier ''c'')) None False]"
proof -
  let ?pos = "BinaryExpression (TypeOfExpression (Identifier ''A'')) ExclamationEqualsEqualsToken
                (StringLiteral ''undefined'')"
  let ?neg = "BinaryExpression (TypeOfExpression (Identifier ''A'')) EqualsEqualsEqualsToken
                (StringLiteral ''undefined'')"
  let ?or = "BinaryExpression (Identifier ''b'') BarBarToken (Identifier ''c'')"
  let ?l = "BinaryExpression ?pos AmpersandAmpersandToken (ParenthesizedExpression ?or)"
  let ?e = "BinaryExpression ?l AmpersandAmpersandToken ?neg"
  have u: "unwrapNegations ?e = (?e, False)"
    by (rule unwrapNegations_binary)
  have ne: "BarBarToken \<noteq> AmpersandAmpersandToken"
    by simp
  have g1: "evaluate sampleChecker ?pos (Some True)
              = GuardExpression (Identifier ''A'') (Some symbolA) False"
    by (simp add: guard_eval)
  have g2: "evaluate sampleChecker ?or (Some True) = GuardExpression ?or None False"
    by (simp add: guard_eval)
  have g3: "evaluate sampleChecker ?neg (Some True) = GuardExpression (Identifier ''A'') None True"
    by (simp add: guard_eval)
  from C6_chain_flattening [of ?e ?l AmpersandAmpersandToken ?neg False sampleChecker] u
  have c: "evaluateChain sampleChecker ?e
     = IsGuardExprChain
         (GuardExprChain
            [GuardExpression (Identifier ''A'') (Some symbolA) False,
             GuardExpression ?or None False,
             GuardExpression (Identifier ''A'') None True]
            AmpersandAmpersandToken False)"
    by (simp add: g1 g2 g3)
  from C6_chain_flattening [of _ _ AmpersandAmpersandToken _ _ sampleChecker BarBarToken
          "Identifier ''b''" "Identifier ''c''" "[]"] ne
  have d: "evaluateChainOperands sampleChecker (ParenthesizedExpression ?or)
             AmpersandAmpersandToken []
           = [GuardExpression ?or None False]"
    by (simp add: g2)
  from u c ne d show ?thesis
    by blast
qed

section \<open>Suppression and lookup\<close>

lemma canSuppress_iff:
  "canIssuesBeSuppressedByGuards issues = (\<exists>i \<in> set issues. kind i \<in> suppressibleKinds)"
  by (induction issues) (auto simp: suppressibleKinds_def)

lemma guardStackLoop_prefix:
  "n \<le> length stack \<Longrightarrow>
     guardStackLoop stack d (int n - 1) = (\<exists>j < n. valueDeclaration (stack ! j) = d)"
proof (induction n)
  case 0
  show ?case
    by (subst guardStackLoop.simps) simp
next
  case (Suc n)
  then have ih: "guardStackLoop stack d (int n - 1) = (\<exists>j < n. valueDeclaration (stack ! j) = d)"
    by simp
  have "guardStackLoop stack d (int (Suc n) - 1)
          = (if d = valueDeclaration (stack ! n) then True
             else guardStackLoop stack d (int n - 1))"
    using Suc.prems by (subst guardStackLoop.simps) simp
  then show ?case
    unfolding ih by (auto simp: less_Suc_eq)
qed

lemma guardStackLoop_set:
  "guardStackLoop stack d (int (length stack) - 1)
     = (\<exists>s \<in> set stack. valueDeclaration s = d)"
proof -
  have "(\<exists>j < length stack. valueDeclaration (stack ! j) = d)
          = (\<exists>s \<in> set stack. valueDeclaration s = d)"
    by (metis in_set_conv_nth)
  then show ?thesis
    by (simp add: guardStackLoop_prefix)
qed

text \<open>
  C7. A list of issues is suppressed exactly when one of its issues has a suppressible
  kind and some symbol on the guard stack has the same value declaration as the
  candidate. The list is then suppressed as a whole: what is reported is either nothing or
  the entire list.
\<close>

theorem C7_guard_suppression:
  "checkEnclosingGuards stack issues symbol
     = ((\<exists>i \<in> set issues. kind i \<in> suppressibleKinds)
        \<and> (\<exists>s \<in> set stack. valueDeclaration s = valueDeclaration symbol))
   \<and> reportUnlessGuarded stack issues (Some symbol)
     = (if checkEnclosingGuards stack issues symbol then [] else issues)"
  by (auto simp: checkEnclosingGuards_def canSuppress_iff guardStackLoop_set
        reportUnlessGuarded_def)

text \<open>
  A NOT_SUPPORTED issue is suppressed by a guard on a symbol declared at the same place,
  whatever its name, and not by a guard on a symbol of the same name declared elsewhere.
\<close>

theorem C7_guard_suppression_witness:
  "checkEnclosingGuards
     [\<lparr>symbolName = ''B'', valueDeclaration = Some 2\<rparr>, symbolA]
     [makeNotSupportedIssue ''A'' None (targetA (V 2 0) (V 5 0))]
     \<lparr>symbolName = ''A2'', valueDeclaration = Some 1\<rparr>
   \<and> reportUnlessGuarded
       [\<lparr>symbolName = ''B'', valueDeclaration = Some 2\<rparr>, symbolA]
       [makeNotSupportedIssue ''A'' None (targetA (V 2 0) (V 5 0))]
       (Some \<lparr>symbolName = ''A2'', valueDeclaration = Some 1\<rparr>) = []
   \<and> \<not> checkEnclosingGuards
       [\<lparr>symbolName = ''B'', valueDeclaration = Some 2\<rparr>, symbolA]
       [makeNotSupportedIssue ''A'' None (targetA (V 2 0) (V 5 0))]
       \<lparr>symbolName = ''A'', valueDeclaration = Some 3\<rparr>"
  using C7_guard_suppression [of "[\<lparr>symbolName = ''B'', valueDeclaration = Some 2\<rparr>, symbolA]"
          "[makeNotSupportedIssue ''A'' None (targetA (V 2 0) (V 5 0))]"
          "\<lparr>symbolName = ''A2'', valueDeclaration = Some 1\<rparr>"]
        C7_guard_suppression [of "[\<lparr>symbolName = ''B'', valueDeclaration = Some 2\<rparr>, symbolA]"
          "[makeNotSupportedIssue ''A'' None (targetA (V 2 0) (V 5 0))]"
          "\<lparr>symbolName = ''A'', valueDeclaration = Some 3\<rparr>"]
  by (simp add: symbolA_def suppressibleKinds_def makeNotSupportedIssue_def Issue_new_def)

lemma checkGlobalLoop_miss:
  "\<forall>l \<in> set cls. m_global l nm = None \<Longrightarrow> checkGlobalLoop cls nm issues = issues"
  by (induction cls arbitrary: issues) (simp_all add: getIssuesForGlobal_def)

lemma getIssuesForPropertyOrEvent_miss:
  "storedMember l typeName propName isEvent = None
     \<Longrightarrow> getIssuesForPropertyOrEvent l typeName propName isEvent issues = issues"
  by (auto simp: storedMember_def getIssuesForPropertyOrEvent_def split: option.splits)

lemma checkPropertyOrEventLoop_miss:
  "\<forall>l \<in> set cls. storedMember l typeName propName isEvent = None
     \<Longrightarrow> checkPropertyOrEventLoop cls typeName propName isEvent issues = issues"
  by (induction cls arbitrary: issues) (simp_all add: getIssuesForPropertyOrEvent_miss)

text \<open>
  C9. A lookup of a global name, or of a member of a type, for which nothing is stored
  returns the caller's array as it was; \<open>checkGlobal\<close> and \<open>checkPropertyOrEvent\<close> then
  return false and leave the array unchanged. The functions have no failing case.
\<close>

theorem C9_lookup_miss:
  "(m_global l nm = None \<longrightarrow> getIssuesForGlobal l nm issues = issues)
   \<and> (storedMember l typeName propName isEvent = None
        \<longrightarrow> getIssuesForPropertyOrEvent l typeName propName isEvent issues = issues)
   \<and> ((\<forall>l \<in> set cls. m_global l nm = None)
        \<longrightarrow> checkGlobal cls nm issues = (False, issues))
   \<and> ((\<forall>l \<in> set cls. storedMember l typeName propName isEvent = None)
        \<longrightarrow> checkPropertyOrEvent cls typeName propName isEvent issues = (False, issues))"
  by (simp add: getIssuesForGlobal_def getIssuesForPropertyOrEvent_miss checkGlobal_def
        checkPropertyOrEvent_def checkGlobalLoop_miss checkPropertyOrEventLoop_miss)

text \<open>An index that holds an issue for \<open>Foo\<close> only, asked about \<open>Bar\<close> and \<open>Foo.x\<close>.\<close>

theorem C9_lookup_miss_witness:
  "m_global (setIssuesForGlobal ClientCompatIssueList_new ''Foo''
               [makeNotSupportedIssue ''Foo'' None (targetA (V 2 0) (V 5 0))]) ''Bar'' = None
   \<and> storedMember (setIssuesForGlobal ClientCompatIssueList_new ''Foo''
               [makeNotSupportedIssue ''Foo'' None (targetA (V 2 0) (V 5 0))])
        ''Foo'' ''x'' False = None
   \<and> checkGlobal
        [setIssuesForGlobal ClientCompatIssueList_new ''Foo''
           [makeNotSupportedIssue ''Foo'' None (targetA (V 2 0) (V 5 0))]]
        ''Bar'' [] = (False, [])
   \<and> checkPropertyOrEvent
        [setIssuesForGlobal ClientCompatIssueList_new ''Foo''
           [makeNotSupportedIssue ''Foo'' None (targetA (V 2 0) (V 5 0))]]
        ''Foo'' ''x'' False [] = (False, [])
   \<and> fst (checkGlobal
        [setIssuesForGlobal ClientCompatIssueList_new ''Foo''
           [makeNotSupportedIssue ''Foo'' None (targetA (V 2 0) (V 5 0))]]
        ''Foo'' [])"
  using C9_lookup_miss [of "setIssuesForGlobal ClientCompatIssueList_new ''Foo''
               [makeNotSupportedIssue ''Foo'' None (targetA (V 2 0) (V 5 0))]" "''Bar''"
          "[]" "''Foo''" "''x''" False
          "[setIssuesForGlobal ClientCompatIssueList_new ''Foo''
               [makeNotSupportedIssue ''Foo'' None (targetA (V 2 0) (V 5 0))]]"]
  by (simp add: setIssuesForGlobal_def ClientCompatIssueList_new_def storedMember_def
        checkGlobal_def getIssuesForGlobal_def entryOf_def appendEntry_def)

section \<open>Round trip of version ranges\<close>

lemma isDigit_digitChar: "d < 10 \<Longrightarrow> isDigit (digitChar d)"
  by (simp add: isDigit_def digitChar_def)

lemma digitVal_digitChar: "d < 10 \<Longrightarrow> digitVal (digitChar d) = int d"
  by (simp add: digitVal_def digitChar_def)

lemma digitsOf_ne: "digitsOf n \<noteq> []"
  by (subst digitsOf.simps) simp

lemma digitsOf_digits: "c \<in> set (digitsOf n) \<Longrightarrow> isDigit c"
proof (induction n arbitrary: c rule: digitsOf.induct)
  case (1 n)
  show ?case
  proof (cases "n < 10")
    case True
    with "1.prems" show ?thesis
      by (subst (asm) digitsOf.simps) (simp add: isDigit_digitChar)
  next
    case False
    with "1.prems" "1.IH" show ?thesis
      by (subst (asm) digitsOf.simps) (auto simp: isDigit_digitChar)
  qed
qed

lemma digitsValue_snoc: "digitsValue (ds @ [c]) = digitsValue ds * 10 + digitVal c"
  by (simp add: digitsValue_def)

lemma digitsValue_digitsOf: "digitsValue (digitsOf n) = int n"
proof (induction n rule: digitsOf.induct)
  case (1 n)
  show ?case
  proof (cases "n < 10")
    case True
    then show ?thesis
      by (subst digitsOf.simps) (simp add: digitsValue_def digitVal_digitChar)
  next
    case False
    with "1.IH" have "digitsValue (digitsOf (n div 10)) = int (n div 10)"
      by simp
    moreover have "int (n div 10) * 10 + int (n mod 10) = int n"
      by presburger
    ultimately show ?thesis
      using False
      by (subst digitsOf.simps) (simp add: digitsValue_snoc digitVal_digitChar)
  qed
qed

lemma isDigit_not_special:
  assumes "isDigit c"
  shows "c \<noteq> CHR ''.''" "c \<noteq> CHR ''-''" "c \<noteq> CHR ''+''" "c \<noteq> CHR ''<''" "c \<noteq> CHR ''>''"
    "c \<noteq> CHR ''*''" "\<not> isStrWhiteSpaceChar c"
  using assms by (auto simp: isDigit_def isStrWhiteSpaceChar_def)

lemma hd_digitsOf: "isDigit (hd (digitsOf n))"
  using digitsOf_ne [of n] digitsOf_digits [of "hd (digitsOf n)" n] by simp

lemma parseInt_digits:
  assumes "rest = [] \<or> \<not> isDigit (hd rest)"
  shows "parseInt (digitsOf n @ rest) = Num (int n)"
proof -
  obtain d ds where ds: "digitsOf n = d # ds"
    using digitsOf_ne [of n] by (cases "digitsOf n") auto
  have d: "isDigit d"
    using digitsOf_digits [of d n] ds by simp
  have tw_rest: "takeWhile isDigit rest = []"
    using assms by (cases rest) auto
  have "takeWhile isDigit (digitsOf n @ rest) = digitsOf n @ takeWhile isDigit rest"
    by (rule takeWhile_append2) (rule digitsOf_digits)
  then have tw: "takeWhile isDigit (d # ds @ rest) = d # ds"
    using ds tw_rest by simp
  have "parseInt (d # ds @ rest) = Num (digitsValue (d # ds))"
    unfolding parseInt_def using isDigit_not_special [OF d] tw
    by (simp add: Let_def)
  then show ?thesis
    using ds digitsValue_digitsOf [of n] by simp
qed

lemma indexOf_absent: "c \<notin> set xs \<Longrightarrow> indexOf xs c = - 1"
  by (induction xs) auto

lemma indexOf_nonneg: "c \<in> set xs \<Longrightarrow> 0 \<le> indexOf xs c"
  by (induction xs) (auto simp: Let_def)

lemma indexOf_first: "c \<notin> set xs \<Longrightarrow> indexOf (xs @ c # ys) c = int (length xs)"
  by (induction xs) (auto simp: Let_def)

lemma toString_nonneg: "0 \<le> a \<Longrightarrow> Number_toString a = digitsOf (nat a)"
  by (simp add: Number_toString_def)

lemma digitsOf_no_dot: "CHR ''.'' \<notin> set (digitsOf n)"
  using digitsOf_digits isDigit_not_special(1) by blast

lemma digitsOf_no_dash: "CHR ''-'' \<notin> set (digitsOf n)"
  using digitsOf_digits isDigit_not_special(2) by blast

lemma parseInt_digitsOf: "parseInt (digitsOf n) = Num (int n)"
  using parseInt_digits [of "[]" n] by simp

lemma create_valid: "Version_create a b = Inr v \<Longrightarrow> validVersion v"
  by (cases a; cases b)
     (auto simp: validVersion_def MAX_MAJOR_def MAX_MINOR_def split: if_splits)

lemma create_ok:
  "0 \<le> a \<Longrightarrow> a \<le> VERSION_MAX \<Longrightarrow> 0 \<le> b \<Longrightarrow> b \<le> VERSION_MAX
     \<Longrightarrow> Version_create (Num a) (Num b) = Inr \<lparr>major = a, minor = b\<rparr>"
  by (simp add: MAX_MAJOR_def MAX_MINOR_def)

lemma fromString'_valid: "Version_fromString' s d = Inr v \<Longrightarrow> validVersion v"
  by (auto simp: Version_fromString'_def Let_def create_valid split: if_splits)

lemma fromString'_bare:
  assumes "0 \<le> a" and "a \<le> VERSION_MAX"
  shows "Version_fromString' (digitsOf (nat a)) d
           = Inr \<lparr>major = a, minor = (if d then MAX_MINOR else 0)\<rparr>"
proof -
  have "indexOf (digitsOf (nat a)) CHR ''.'' = - 1"
    by (rule indexOf_absent) (rule digitsOf_no_dot)
  moreover have "parseInt (digitsOf (nat a)) = Num a"
    using assms(1) by (simp add: parseInt_digitsOf)
  moreover have "Version_create (Num a) (Num (if d then MAX_MINOR else 0))
                   = Inr \<lparr>major = a, minor = (if d then MAX_MINOR else 0)\<rparr>"
    using assms by (simp add: MAX_MAJOR_def MAX_MINOR_def VERSION_MAX_def)
  ultimately show ?thesis
    by (simp add: Version_fromString'_def)
qed

lemma toString_shape:
  "validVersion v \<Longrightarrow>
     Version_toString v = digitsOf (nat (major v)) @ CHR ''.'' # digitsOf (nat (minor v))"
  by (simp add: Version_toString_def validVersion_def toString_nonneg)

lemma fromString'_dotted:
  assumes "validVersion v"
  shows "Version_fromString' (Version_toString v) d = Inr v"
proof -
  let ?A = "digitsOf (nat (major v))"
  let ?B = "digitsOf (nat (minor v))"
  have shape: "Version_toString v = ?A @ CHR ''.'' # ?B"
    using assms by (rule toString_shape)
  have p: "indexOf (?A @ CHR ''.'' # ?B) CHR ''.'' = int (length ?A)"
    by (rule indexOf_first) (rule digitsOf_no_dot)
  have left: "substring (?A @ CHR ''.'' # ?B) 0 (length ?A) = ?A"
    by (simp add: substring_def Let_def)
  have right: "substringFrom (?A @ CHR ''.'' # ?B) (Suc (length ?A)) = ?B"
    by (simp add: substringFrom_def)
  have "Version_create (parseInt ?A) (parseInt ?B) = Inr v"
    using assms by (simp add: parseInt_digitsOf validVersion_def MAX_MAJOR_def MAX_MINOR_def)
  then show ?thesis
    unfolding shape Version_fromString'_def
    by (simp add: p left right Let_def)
qed

lemma toString_no_dash: "validVersion v \<Longrightarrow> CHR ''-'' \<notin> set (Version_toString v)"
  by (simp add: toString_shape digitsOf_no_dash)

lemma toString_has_dot: "validVersion v \<Longrightarrow> indexOf (Version_toString v) CHR ''.'' \<noteq> - 1"
  using indexOf_nonneg [of "CHR ''.''" "Version_toString v"]
  by (simp add: toString_shape)

lemma digit_head:
  "startsWith (digitsOf n @ rest) p \<Longrightarrow> p \<noteq> [] \<Longrightarrow> isDigit (hd p)"
proof -
  assume a: "startsWith (digitsOf n @ rest) p" and b: "p \<noteq> []"
  obtain d ds where ds: "digitsOf n = d # ds"
    using digitsOf_ne [of n] by (cases "digitsOf n") auto
  from b obtain c cs where p: "p = c # cs"
    by (cases p) auto
  from a ds p have "c = d"
    by (simp add: startsWith_def)
  with hd_digitsOf [of n] ds p show ?thesis
    by simp
qed

lemma digits_not_prefixed:
  "\<not> startsWith (digitsOf n @ rest) ''<=''" "\<not> startsWith (digitsOf n @ rest) ''>=''"
  "digitsOf n @ rest \<noteq> ''*''"
proof -
  show "\<not> startsWith (digitsOf n @ rest) ''<=''"
    using digit_head [of n rest "''<=''"] isDigit_not_special(4) by fastforce
  show "\<not> startsWith (digitsOf n @ rest) ''>=''"
    using digit_head [of n rest "''>=''"] isDigit_not_special(5) by fastforce
  obtain d ds where ds: "digitsOf n = d # ds"
    using digitsOf_ne [of n] by (cases "digitsOf n") auto
  with hd_digitsOf [of n] have "isDigit d" by simp
  then have "d \<noteq> CHR ''*''" by (rule isDigit_not_special(6))
  with ds show "digitsOf n @ rest \<noteq> ''*''" by simp
qed

lemma validVersion_minVal: "validVersion minVal"
  by (simp add: validVersion_def minVal_def VERSION_MAX_def)

lemma validVersion_maxVal: "validVersion maxVal"
  by (simp add: validVersion_def maxVal_def VERSION_MAX_def)

lemma bind_result_Inr:
  "bind_result r f = Inr y \<Longrightarrow> \<exists>x. r = Inr x \<and> f x = Inr y"
  by (cases r) (simp_all add: bind_result_def)

lemma checkRange_Inr:
  "checkRange str a b = Inr (mn, mx) \<Longrightarrow> mn = a \<and> mx = b \<and> \<not> Version_compare a b > 0"
  by (simp add: checkRange_def split: if_splits)

lemma checkRange_ok:
  "\<not> Version_compare a b > 0 \<Longrightarrow> checkRange str a b = Inr (a, b)"
  by (simp add: checkRange_def)

lemma rangeFromString_valid:
  assumes "Version_rangeFromString s = Inr (mn, mx)"
  shows "validVersion mn \<and> validVersion mx \<and> \<not> Version_compare mn mx > 0"
proof (cases "s = ''*''")
  case True
  with assms have "mn = minVal" "mx = maxVal"
    by (simp_all add: Version_rangeFromString_def)
  then show ?thesis
    by (simp add: validVersion_minVal validVersion_maxVal)
       (simp add: Version_compare_def minVal_def maxVal_def VERSION_MAX_def)
next
  case star: False
  show ?thesis
  proof (cases "indexOf s CHR ''-'' \<noteq> - 1")
    case True
    with star assms obtain a b where
      "Version_fromString' (substring s 0 (nat (indexOf s CHR ''-''))) False = Inr a"
      "Version_fromString' (substringFrom s (nat (indexOf s CHR ''-'') + 1)) True = Inr b"
      "checkRange s a b = Inr (mn, mx)"
      by (auto simp: Version_rangeFromString_def Let_def dest!: bind_result_Inr)
    then show ?thesis
      using fromString'_valid checkRange_Inr by blast
  next
    case dash: False
    show ?thesis
    proof (cases "startsWith s ''<=''")
      case True
      with star dash assms obtain b where
        "Version_fromString' (substringFrom s 2) True = Inr b"
        "checkRange s minVal b = Inr (mn, mx)"
        by (auto simp: Version_rangeFromString_def Let_def dest!: bind_result_Inr)
      then show ?thesis
        using fromString'_valid checkRange_Inr validVersion_minVal by blast
    next
      case le: False
      show ?thesis
      proof (cases "startsWith s ''>=''")
        case True
        with star dash le assms obtain a where
          "Version_fromString' (substringFrom s 2) False = Inr a"
          "checkRange s a maxVal = Inr (mn, mx)"
          by (auto simp: Version_rangeFromString_def Let_def dest!: bind_result_Inr)
        then show ?thesis
          using fromString'_valid checkRange_Inr validVersion_maxVal by blast
      next
        case ge: False
        show ?thesis
        proof (cases "indexOf s CHR ''.'' = - 1")
          case True
          with star dash le ge assms obtain a b where
            "Version_create (parseInt s) (Num 0) = Inr a"
            "Version_create (Num (major a)) (Num MAX_MINOR) = Inr b"
            "checkRange s a b = Inr (mn, mx)"
            by (auto simp: Version_rangeFromString_def Let_def dest!: bind_result_Inr)
          then show ?thesis
            using create_valid checkRange_Inr by blast
        next
          case False
          with star dash le ge assms obtain a where
            "Version_fromString s = Inr a"
            "checkRange s a a = Inr (mn, mx)"
            by (auto simp: Version_rangeFromString_def Let_def dest!: bind_result_Inr)
          then show ?thesis
            using fromString'_valid checkRange_Inr unfolding Version_fromString_def by blast
        qed
      qed
    qed
  qed
qed

lemma range_dash:
  assumes "CHR ''-'' \<notin> set A"
    and "Version_fromString' A False = Inr mn"
    and "Version_fromString' B True = Inr mx"
    and "\<not> Version_compare mn mx > 0"
  shows "Version_rangeFromString (A @ CHR ''-'' # B) = Inr (mn, mx)"
proof -
  have star: "A @ CHR ''-'' # B \<noteq> ''*''"
    by (cases A) simp_all
  have p: "indexOf (A @ CHR ''-'' # B) CHR ''-'' = int (length A)"
    using assms(1) by (rule indexOf_first)
  have left: "substring (A @ CHR ''-'' # B) 0 (length A) = A"
    by (simp add: substring_def Let_def)
  have right: "substringFrom (A @ CHR ''-'' # B) (Suc (length A)) = B"
    by (simp add: substringFrom_def)
  show ?thesis
    unfolding Version_rangeFromString_def
    using star assms(2-4)
    by (simp add: p left right Let_def bind_result_def checkRange_ok)
qed

lemma range_le:
  assumes "CHR ''-'' \<notin> set body"
    and "Version_fromString' body True = Inr mx"
    and "\<not> Version_compare minVal mx > 0"
  shows "Version_rangeFromString (''<='' @ body) = Inr (minVal, mx)"
proof -
  have p: "indexOf (''<='' @ body) CHR ''-'' = - 1"
    using assms(1) by (intro indexOf_absent) simp
  have sw: "startsWith (''<='' @ body) ''<=''"
    by (simp add: startsWith_def)
  have rest: "substringFrom (''<='' @ body) 2 = body"
    by (simp add: substringFrom_def)
  show ?thesis
    unfolding Version_rangeFromString_def
    using assms(2,3)
    by (simp only: p sw rest Let_def) (simp add: bind_result_def checkRange_ok)
qed

lemma range_ge:
  assumes "CHR ''-'' \<notin> set body"
    and "Version_fromString' body False = Inr mn"
    and "\<not> Version_compare mn maxVal > 0"
  shows "Version_rangeFromString (''>='' @ body) = Inr (mn, maxVal)"
proof -
  have p: "indexOf (''>='' @ body) CHR ''-'' = - 1"
    using assms(1) by (intro indexOf_absent) simp
  have nsw: "\<not> startsWith (''>='' @ body) ''<=''"
    by (simp add: startsWith_def)
  have sw: "startsWith (''>='' @ body) ''>=''"
    by (simp add: startsWith_def)
  have rest: "substringFrom (''>='' @ body) 2 = body"
    by (simp add: substringFrom_def)
  show ?thesis
    unfolding Version_rangeFromString_def
    using assms(2,3)
    by (simp only: p sw nsw rest Let_def) (simp add: bind_result_def checkRange_ok)
qed

lemma range_bare:
  assumes "0 \<le> a" and "a \<le> VERSION_MAX"
  shows "Version_rangeFromString (digitsOf (nat a))
           = Inr (\<lparr>major = a, minor = 0\<rparr>, \<lparr>major = a, minor = MAX_MINOR\<rparr>)"
proof -
  let ?s = "digitsOf (nat a)"
  have star: "?s \<noteq> ''*''" and nle: "\<not> startsWith ?s ''<=''" and nge: "\<not> startsWith ?s ''>=''"
    using digits_not_prefixed [of "nat a" "[]"] by simp_all
  have dash: "indexOf ?s CHR ''-'' = - 1"
    by (rule indexOf_absent) (rule digitsOf_no_dash)
  have dot: "indexOf ?s CHR ''.'' = - 1"
    by (rule indexOf_absent) (rule digitsOf_no_dot)
  have pi: "parseInt ?s = Num a"
    using assms(1) by (simp add: parseInt_digitsOf)
  have c1: "Version_create (Num a) (Num 0) = Inr \<lparr>major = a, minor = 0\<rparr>"
    using assms by (simp add: MAX_MAJOR_def MAX_MINOR_def VERSION_MAX_def)
  have c2: "Version_create (Num a) (Num MAX_MINOR) = Inr \<lparr>major = a, minor = MAX_MINOR\<rparr>"
    using assms by (simp add: MAX_MAJOR_def MAX_MINOR_def VERSION_MAX_def)
  have cmp: "\<not> Version_compare \<lparr>major = a, minor = 0\<rparr> \<lparr>major = a, minor = MAX_MINOR\<rparr> > 0"
    by (simp add: Version_compare_def MAX_MINOR_def VERSION_MAX_def)
  show ?thesis
    unfolding Version_rangeFromString_def
    using star cmp
    by (simp add: dash nle nge dot pi c1 c2 bind_result_def checkRange_ok Let_def
          del: Version_create.simps)
qed

lemma range_exact:
  assumes "validVersion v"
  shows "Version_rangeFromString (Version_toString v) = Inr (v, v)"
proof -
  let ?s = "Version_toString v"
  have shape: "?s = digitsOf (nat (major v)) @ CHR ''.'' # digitsOf (nat (minor v))"
    using assms by (rule toString_shape)
  have star: "?s \<noteq> ''*''" and nle: "\<not> startsWith ?s ''<=''" and nge: "\<not> startsWith ?s ''>=''"
    unfolding shape using digits_not_prefixed by blast+
  have dash: "indexOf ?s CHR ''-'' = - 1"
    using assms by (intro indexOf_absent toString_no_dash)
  have dot: "indexOf ?s CHR ''.'' \<noteq> - 1"
    using assms by (rule toString_has_dot)
  have fs: "Version_fromString ?s = Inr v"
    using assms by (simp add: Version_fromString_def fromString'_dotted)
  have cmp: "\<not> Version_compare v v > 0"
    by (simp add: Version_compare_def)
  show ?thesis
    unfolding Version_rangeFromString_def
    using star dot cmp
    by (simp add: dash nle nge fs bind_result_def checkRange_ok Let_def)
qed

lemma majorRange_roundtrip:
  assumes mn: "validVersion mn" and mx: "validVersion mx"
    and le: "\<not> Version_compare mn mx > 0"
    and m0: "minor mn = 0" and m1: "minor mx = MAX_MINOR"
  shows "Version_rangeFromString (versionMajorRangeToString (major mn) (major mx)) = Inr (mn, mx)"
proof -
  have mn_eq: "mn = \<lparr>major = major mn, minor = 0\<rparr>"
    using m0 by simp
  have mx_eq: "mx = \<lparr>major = major mx, minor = MAX_MINOR\<rparr>"
    using m1 by simp
  have bounds: "0 \<le> major mn" "major mn \<le> VERSION_MAX" "0 \<le> major mx" "major mx \<le> VERSION_MAX"
    using mn mx by (simp_all add: validVersion_def)
  show ?thesis
  proof (cases "major mn = major mx")
    case True
    have "Version_rangeFromString (digitsOf (nat (major mn)))
            = Inr (\<lparr>major = major mn, minor = 0\<rparr>, \<lparr>major = major mn, minor = MAX_MINOR\<rparr>)"
      using bounds by (intro range_bare)
    with True mn_eq mx_eq show ?thesis
      by (simp add: versionMajorRangeToString_def toString_nonneg bounds)
  next
    case ne: False
    show ?thesis
    proof (cases "major mn = 0")
      case zero: True
      then have mn_min: "mn = minVal"
        using m0 by (simp add: minVal_def)
      show ?thesis
      proof (cases "major mx = MAX_MAJOR")
        case True
        then have "mx = maxVal"
          using m1 by (simp add: maxVal_def MAX_MAJOR_def MAX_MINOR_def)
        with mn_min True zero ne show ?thesis
          by (simp add: versionMajorRangeToString_def Version_rangeFromString_def)
      next
        case False
        have "Version_fromString' (digitsOf (nat (major mx))) True
                = Inr \<lparr>major = major mx, minor = MAX_MINOR\<rparr>"
          using fromString'_bare [of "major mx" True] bounds by simp
        then have "Version_fromString' (digitsOf (nat (major mx))) True = Inr mx"
          using mx_eq by simp
        then have "Version_rangeFromString (''<='' @ digitsOf (nat (major mx))) = Inr (minVal, mx)"
          using le mn_min by (intro range_le digitsOf_no_dash) simp_all
        with False zero ne mn_min show ?thesis
          by (simp add: versionMajorRangeToString_def toString_nonneg bounds)
      qed
    next
      case nz: False
      show ?thesis
      proof (cases "major mx = MAX_MAJOR")
        case True
        then have mx_max: "mx = maxVal"
          using m1 by (simp add: maxVal_def MAX_MAJOR_def MAX_MINOR_def)
        have "Version_fromString' (digitsOf (nat (major mn))) False
                = Inr \<lparr>major = major mn, minor = 0\<rparr>"
          using fromString'_bare [of "major mn" False] bounds by simp
        then have "Version_fromString' (digitsOf (nat (major mn))) False = Inr mn"
          using mn_eq by simp
        then have "Version_rangeFromString (''>='' @ digitsOf (nat (major mn))) = Inr (mn, maxVal)"
          using le mx_max by (intro range_ge digitsOf_no_dash) simp_all
        with True nz ne mx_max show ?thesis
          by (simp add: versionMajorRangeToString_def toString_nonneg bounds)
      next
        case False
        have a: "Version_fromString' (digitsOf (nat (major mn))) False = Inr mn"
          using fromString'_bare [of "major mn" False] bounds mn_eq by simp
        have b: "Version_fromString' (digitsOf (nat (major mx))) True = Inr mx"
          using fromString'_bare [of "major mx" True] bounds mx_eq by simp
        have "Version_rangeFromString
                (digitsOf (nat (major mn)) @ CHR ''-'' # digitsOf (nat (major mx))) = Inr (mn, mx)"
          using a b le by (intro range_dash digitsOf_no_dash)
        with False nz ne show ?thesis
          by (simp add: versionMajorRangeToString_def toString_nonneg bounds)
      qed
    qed
  qed
qed

lemma range_roundtrip:
  assumes mn: "validVersion mn" and mx: "validVersion mx"
    and le: "\<not> Version_compare mn mx > 0"
  shows "Version_rangeFromString (Version_rangeToString mn mx) = Inr (mn, mx)"
proof (cases "Version_compare mn mx = 0")
  case True
  then have "mn = mx"
    by (simp add: compare_eq)
  with True mn show ?thesis
    by (simp add: Version_rangeToString_def range_exact)
next
  case ne: False
  show ?thesis
  proof (cases "minor mn = 0 \<and> minor mx = MAX_MINOR")
    case True
    with ne show ?thesis
      using majorRange_roundtrip [OF mn mx le]
      by (simp add: Version_rangeToString_def)
  next
    case nm: False
    show ?thesis
    proof (cases "Version_compare mn minVal \<le> 0")
      case True
      with mn have mn_min: "mn = minVal"
        by (auto simp: Version_compare_def validVersion_def minVal_def split: if_splits)
      have "Version_rangeFromString (''<='' @ Version_toString mx) = Inr (minVal, mx)"
        using mx le mn_min
        by (intro range_le toString_no_dash fromString'_dotted) simp_all
      then have "Version_rangeFromString (''<='' @ Version_toString mx) = Inr (mn, mx)"
        by (simp only: mn_min)
      with True ne nm show ?thesis
        by (auto simp: Version_rangeToString_def)
    next
      case nmin: False
      show ?thesis
      proof (cases "Version_compare mx maxVal \<ge> 0")
        case True
        with mx have mx_max: "mx = maxVal"
          by (auto simp: Version_compare_def validVersion_def maxVal_def split: if_splits)
        have "Version_rangeFromString (''>='' @ Version_toString mn) = Inr (mn, maxVal)"
          using mn le mx_max
          by (intro range_ge toString_no_dash fromString'_dotted) simp_all
        then have "Version_rangeFromString (''>='' @ Version_toString mn) = Inr (mn, mx)"
          by (simp only: mx_max)
        with True ne nm nmin show ?thesis
          by (auto simp: Version_rangeToString_def)
      next
        case False
        have "Version_rangeFromString (Version_toString mn @ CHR ''-'' # Version_toString mx)
                = Inr (mn, mx)"
          using mn mx le
          by (intro range_dash toString_no_dash fromString'_dotted)
        with False ne nm nmin show ?thesis
          by (auto simp: Version_rangeToString_def)
      qed
    qed
  qed
qed

lemmas version_eval =
  Version_rangeFromString_def Version_fromString'_def Version_fromString_def parseInt_def
  isStrWhiteSpaceChar_def isDigit_def digitsValue_def digitVal_def substring_def
  substringFrom_def startsWith_def bind_result_def checkRange_def Version_compare_def
  MAX_MAJOR_def MAX_MINOR_def VERSION_MAX_def minVal_def maxVal_def

lemmas format_eval =
  Version_rangeToString_def versionMajorRangeToString_def Version_toString_def
  Number_toString_def digitsOf.simps digitChar_def char_of_eq_iff Version_compare_def
  MAX_MAJOR_def MAX_MINOR_def VERSION_MAX_def minVal_def maxVal_def

text \<open>
  C8. When \<open>rangeFromString\<close> accepts a string and returns the pair \<open>[min, max]\<close>, the
  string that \<open>rangeToString\<close> makes of that pair is accepted too and parses to the same
  pair.
\<close>

theorem C8_range_roundtrip:
  "Version_rangeFromString s = Inr (mn, mx)
     \<Longrightarrow> Version_rangeFromString (Version_rangeToString mn mx) = Inr (mn, mx)"
  using rangeFromString_valid [of s mn mx] range_roundtrip [of mn mx]
  by blast

text \<open>
  The range \<open>4.5-22\<close> is formatted as \<open>4.5-22.999999999\<close>, another string for the same
  pair.
\<close>

theorem C8_range_roundtrip_witness:
  "Version_rangeFromString ''4.5-22'' = Inr (V 4 5, V 22 999999999)
   \<and> Version_rangeToString (V 4 5) (V 22 999999999) = ''4.5-22.999999999''
   \<and> Version_rangeFromString (Version_rangeToString (V 4 5) (V 22 999999999))
       = Inr (V 4 5, V 22 999999999)"
proof -
  have parsed: "Version_rangeFromString ''4.5-22'' = Inr (V 4 5, V 22 999999999)"
    by (simp add: version_eval)
  have formatted: "Version_rangeToString (V 4 5) (V 22 999999999) = ''4.5-22.999999999''"
    by (simp add: format_eval)
  from C8_range_roundtrip [OF parsed] parsed formatted show ?thesis
    by simp
qed

end
